theory Spec2Isabelle
  imports Complex_Main
begin

section \<open>Coordinates and geometries\<close>

text \<open>
  A Python float is either not-a-number, one of the two infinities, or a finite value,
  which is read as the real number it denotes. The comparisons of the source
  (\<open>lon < -180\<close>, \<open>lat > 90\<close>) are exact on finite floats and false on NaN.
\<close>

datatype pyfloat = NaN | PosInf | NegInf | Fin real

definition isnan :: "pyfloat \<Rightarrow> bool" where
  "isnan x = (case x of NaN \<Rightarrow> True | _ \<Rightarrow> False)"

definition isinf :: "pyfloat \<Rightarrow> bool" where
  "isinf x = (case x of PosInf \<Rightarrow> True | NegInf \<Rightarrow> True | _ \<Rightarrow> False)"

definition fl_lt :: "pyfloat \<Rightarrow> real \<Rightarrow> bool" where
  "fl_lt x r = (case x of Fin a \<Rightarrow> a < r | NegInf \<Rightarrow> True | _ \<Rightarrow> False)"

definition fl_gt :: "pyfloat \<Rightarrow> real \<Rightarrow> bool" where
  "fl_gt x r = (case x of Fin a \<Rightarrow> r < a | PosInf \<Rightarrow> True | _ \<Rightarrow> False)"

text \<open>
  A coordinate is the tuple of its ordinates (two of them, or three with Z), a ring the
  list of its coordinates. A MultiPolygon holds polygons, each an exterior ring with its
  interior rings. A Polygon holds the rings it was built from: what the geometry library
  does to a ring at construction (closing it, refusing one that is too short) is not
  modelled.
\<close>

type_synonym coord = "pyfloat list"
type_synonym ring = "coord list"
type_synonym polygon = "ring \<times> ring list"

datatype geometry =
    is_Point: Point coord
  | is_Polygon: Polygon (exterior: ring) (interiors: "ring list")
  | is_MultiPolygon: MultiPolygon (geoms: "polygon list")
  | is_OtherGeometry: OtherGeometry string "coord list"

definition poly_geom :: "polygon \<Rightarrow> geometry" where
  "poly_geom p = Polygon (fst p) (snd p)"

subsection \<open>is_valid_coord\<close>

definition is_valid_coord :: "coord \<Rightarrow> bool" where
  "is_valid_coord coord =
     (if length coord < 2 then False
      else let lon = coord ! 0; lat = coord ! 1 in
        if isnan lon \<or> isnan lat \<or> isinf lon \<or> isinf lat then False
        else if fl_lt lon (- 180) \<or> fl_gt lon 180 \<or> fl_lt lat (- 90) \<or> fl_gt lat 90 then False
        else True)"

subsection \<open>clean_coords\<close>

text \<open>
  The loop of \<open>clean_coords\<close> appends each valid coordinate to \<open>cleaned\<close>, cut to its
  first two ordinates when it has more, and counts the others in \<open>dropped\<close>. The function
  returns \<open>cleaned\<close>; the count leaves it only through the line it prints when the count
  is positive, which the model returns beside the ring.
\<close>

datatype diagnostic = Dropped nat nat string

definition keep_coord :: "coord \<Rightarrow> coord" where
  "keep_coord coord = (if length coord > 2 then [coord ! 0, coord ! 1] else coord)"

fun clean_loop :: "ring \<Rightarrow> ring \<Rightarrow> nat \<Rightarrow> ring \<times> nat" where
  "clean_loop [] cleaned dropped = (cleaned, dropped)"
| "clean_loop (coord # coords) cleaned dropped =
     (if is_valid_coord coord
      then clean_loop coords (cleaned @ [keep_coord coord]) dropped
      else clean_loop coords cleaned (dropped + 1))"

definition clean_coords :: "ring \<Rightarrow> string \<Rightarrow> ring \<times> diagnostic list" where
  "clean_coords coords label =
     (let original_len = length coords;
          (cleaned, dropped) = clean_loop coords [] 0
      in (cleaned, if dropped > 0 then [Dropped dropped original_len label] else []))"

subsection \<open>The geometry library\<close>

text \<open>
  Validity, emptiness, area, \<open>make_valid\<close>, \<open>simplify\<close>, \<open>buffer\<close>, the GeoJSON round
  trip, the WKT reload and the WKB writer belong to the geometry library, not to this
  repository. They are parameters of the model. An operation that can raise returns
  \<open>None\<close> when it does.
\<close>

type_synonym wkb = "nat list"

record shapely =
  is_valid :: "geometry \<Rightarrow> bool"
  is_empty :: "geometry \<Rightarrow> bool"
  area :: "geometry \<Rightarrow> real"
  make_valid :: "geometry \<Rightarrow> geometry option"
  simplify :: "geometry \<Rightarrow> geometry option"
  buffer0 :: "geometry \<Rightarrow> geometry option"
  json_roundtrip :: "geometry \<Rightarrow> geometry option"
  wkt_reload :: "geometry \<Rightarrow> geometry option"
  wkb_dumps :: "geometry \<Rightarrow> wkb option"

subsection \<open>validate_and_clean_coordinates\<close>

text \<open>
  The Polygon branch of \<open>_validate_and_clean_coordinates\<close>; the MultiPolygon branch
  calls the function again on each part, which is a Polygon.
\<close>

definition clean_polygon :: "shapely \<Rightarrow> ring \<Rightarrow> ring list \<Rightarrow> geometry option" where
  "clean_polygon sh ext ints =
     (let exterior = fst (clean_coords ext ''exterior ring'') in
      if length exterior < 4 then None
      else
        let interiors = filter (\<lambda>interior. length interior \<ge> 4)
                          (map (\<lambda>ring. fst (clean_coords ring ''interior ring'')) ints);
            poly = Polygon exterior interiors
        in if \<not> is_valid sh poly then None else Some poly)"

definition clean_part :: "shapely \<Rightarrow> polygon \<Rightarrow> polygon option" where
  "clean_part sh part =
     (case clean_polygon sh (fst part) (snd part) of
        None \<Rightarrow> None
      | Some cleaned_part \<Rightarrow>
          if is_valid sh cleaned_part
          then Some (exterior cleaned_part, interiors cleaned_part) else None)"

definition validate_and_clean_coordinates :: "shapely \<Rightarrow> geometry \<Rightarrow> geometry option" where
  "validate_and_clean_coordinates sh geometry =
     (case geometry of
        Polygon ext ints \<Rightarrow> clean_polygon sh ext ints
      | MultiPolygon parts \<Rightarrow>
          (let valid_parts = List.map_filter (clean_part sh) parts
           in if valid_parts \<noteq> [] then Some (MultiPolygon valid_parts) else None)
      | _ \<Rightarrow> Some geometry)"

text \<open>A stand-in for the geometry library, used to run the model on concrete inputs.\<close>

definition accepting_shapely :: shapely where
  "accepting_shapely =
     \<lparr>is_valid = (\<lambda>g. True), is_empty = (\<lambda>g. False), area = (\<lambda>g. 1),
      make_valid = Some, simplify = Some, buffer0 = Some, json_roundtrip = Some,
      wkt_reload = Some, wkb_dumps = (\<lambda>g. Some [])\<rparr>"

subsection \<open>repair_geometry\<close>

text \<open>
  \<open>_repair_geometry\<close>. Every exception raised inside it is caught and turned into
  the result none.
\<close>

definition repair_geometry :: "shapely \<Rightarrow> geometry \<Rightarrow> geometry option" where
  "repair_geometry sh geometry =
     (case make_valid sh geometry of
        None \<Rightarrow> None
      | Some repaired \<Rightarrow>
          if \<not> is_valid sh repaired then
            (if is_Polygon repaired then
               (if area sh repaired < 1 / 10 ^ 10 then None
                else
                  (case simplify sh repaired of
                     None \<Rightarrow> None
                   | Some simplified \<Rightarrow>
                       (case buffer0 sh simplified of
                          None \<Rightarrow> None
                        | Some buffered \<Rightarrow>
                            if is_valid sh buffered \<and> area sh buffered > 0
                            then Some buffered else None)))
             else if is_MultiPolygon repaired then
               (let valid_parts =
                      filter (\<lambda>part. is_valid sh (poly_geom part) \<and>
                                      area sh (poly_geom part) > 1 / 10 ^ 10)
                        (geoms repaired)
                in if valid_parts \<noteq> [] then Some (MultiPolygon valid_parts) else None)
             else None)
          else Some repaired)"

subsection \<open>convert_3d_to_2d\<close>

definition is_3d :: "ring \<Rightarrow> bool" where
  "is_3d coords = list_ex (\<lambda>coord. length coord > 2) coords"

text \<open>
  \<open>strip_z\<close> unpacks each coordinate as \<open>x, y, *_\<close>, which raises on a coordinate
  with fewer than two ordinates; the result is \<open>None\<close> then.
\<close>

fun strip_z :: "ring \<Rightarrow> ring option" where
  "strip_z [] = Some []"
| "strip_z (coord # coords) =
     (case coord of
        x # y # _ \<Rightarrow> (case strip_z coords of None \<Rightarrow> None | Some rest \<Rightarrow> Some ([x, y] # rest))
      | _ \<Rightarrow> None)"

fun strip_rings :: "ring list \<Rightarrow> ring list option" where
  "strip_rings [] = Some []"
| "strip_rings (ring # rings) =
     (case strip_z ring of
        None \<Rightarrow> None
      | Some r \<Rightarrow> (case strip_rings rings of None \<Rightarrow> None | Some rs \<Rightarrow> Some (r # rs)))"

text \<open>
  The loop over the parts of a MultiPolygon: a part is kept when its stripped polygon is
  valid and its exterior has at least 4 points. \<open>None\<close> when \<open>strip_z\<close> raised.
\<close>

fun strip_parts :: "shapely \<Rightarrow> polygon list \<Rightarrow> polygon list option" where
  "strip_parts sh [] = Some []"
| "strip_parts sh (p # ps) =
     (case strip_z (fst p) of
        None \<Rightarrow> None
      | Some exterior_2d \<Rightarrow>
          (case strip_rings (snd p) of
             None \<Rightarrow> None
           | Some interiors_2d \<Rightarrow>
               (case strip_parts sh ps of
                  None \<Rightarrow> None
                | Some valid_polys \<Rightarrow>
                    if is_valid sh (Polygon exterior_2d interiors_2d) \<and> length exterior_2d \<ge> 4
                    then Some ((exterior_2d, interiors_2d) # valid_polys)
                    else Some valid_polys)))"

text \<open>
  The body of the \<open>try\<close> of \<open>_convert_3d_to_2d\<close>: \<open>Inl ()\<close> when an exception was
  raised, \<open>Inr\<close> the value returned otherwise. The handler then reloads the geometry
  from its WKT text with the Z markers deleted.
\<close>

definition convert_3d_to_2d_try :: "shapely \<Rightarrow> geometry \<Rightarrow> unit + geometry option" where
  "convert_3d_to_2d_try sh geometry =
     (case geometry of
        Polygon ext ints \<Rightarrow>
          if \<not> is_3d ext then Inr (Some geometry)
          else
            (case strip_z ext of
               None \<Rightarrow> Inl ()
             | Some exterior_2d \<Rightarrow>
                 (case strip_rings ints of
                    None \<Rightarrow> Inl ()
                  | Some interiors_2d \<Rightarrow> Inr (Some (Polygon exterior_2d interiors_2d))))
      | MultiPolygon parts \<Rightarrow>
          if list_all (\<lambda>p. \<not> is_3d (fst p)) parts then Inr (Some geometry)
          else
            (case strip_parts sh parts of
               None \<Rightarrow> Inl ()
             | Some valid_polys \<Rightarrow>
                 if valid_polys \<noteq> [] then Inr (Some (MultiPolygon valid_polys)) else Inr None)
      | _ \<Rightarrow>
          (case json_roundtrip sh geometry of None \<Rightarrow> Inl () | Some g \<Rightarrow> Inr (Some g)))"

definition convert_3d_to_2d :: "shapely \<Rightarrow> geometry \<Rightarrow> geometry option" where
  "convert_3d_to_2d sh geometry =
     (case convert_3d_to_2d_try sh geometry of
        Inr result \<Rightarrow> result
      | Inl _ \<Rightarrow> wkt_reload sh geometry)"

text \<open>The coordinates of a geometry, ring by ring, and the absence of a third ordinate.\<close>

definition polygon_coords :: "polygon \<Rightarrow> coord list" where
  "polygon_coords p = fst p @ concat (snd p)"

definition geometry_coords :: "geometry \<Rightarrow> coord list" where
  "geometry_coords geometry =
     (case geometry of
        Point c \<Rightarrow> [c]
      | Polygon ext ints \<Rightarrow> polygon_coords (ext, ints)
      | MultiPolygon parts \<Rightarrow> concat (map polygon_coords parts)
      | OtherGeometry _ cs \<Rightarrow> cs)"

definition two_d :: "geometry \<Rightarrow> bool" where
  "two_d geometry = list_all (\<lambda>coord. length coord = 2) (geometry_coords geometry)"

subsection \<open>safe_geometry_to_wkb\<close>

datatype py_error = AttributeError | TypeError | ValueError | OverflowError | DatabaseError

datatype pyval = PyNone | PyStr string | PyFloat pyfloat | PyOther

text \<open>
  The validity test followed by the repair attempt, as \<open>safe_geometry_to_wkb\<close> does it
  before cleaning and again after the conversion to 2-D: none when the repair gives none
  or a geometry that is still invalid.
\<close>

definition repair_step :: "shapely \<Rightarrow> geometry \<Rightarrow> geometry option" where
  "repair_step sh geometry =
     (if \<not> is_valid sh geometry then
        (case repair_geometry sh geometry of
           None \<Rightarrow> None
         | Some repaired \<Rightarrow> if is_valid sh repaired then Some repaired else None)
      else Some geometry)"

text \<open>
  \<open>safe_geometry_to_wkb\<close>: \<open>Inl\<close> an exception that leaves the function, \<open>Inr\<close> the
  value it returns. The first block prints attributes of the geometry when the parcel
  id is the one being debugged; it stands before the test for a null geometry and outside
  the \<open>try\<close>. The later debugging block reads a geometry that is not null. All other
  printing is left out.
\<close>

definition safe_geometry_to_wkb ::
  "shapely \<Rightarrow> geometry option \<Rightarrow> pyval \<Rightarrow> py_error + wkb option" where
  "safe_geometry_to_wkb sh geometry parcel_id =
     (if parcel_id = PyStr ''teton_county_wy_000001'' \<and> geometry = None
      then Inl AttributeError
      else
        (case geometry of
           None \<Rightarrow> Inr None
         | Some g \<Rightarrow>
             if is_empty sh g then Inr None
             else
               (case repair_step sh g of
                  None \<Rightarrow> Inr None
                | Some g1 \<Rightarrow>
                    (case validate_and_clean_coordinates sh g1 of
                       None \<Rightarrow> Inr None
                     | Some cleaned_geometry \<Rightarrow>
                         (case convert_3d_to_2d sh cleaned_geometry of
                            None \<Rightarrow> Inr None
                          | Some geom_2d \<Rightarrow>
                              (case repair_step sh geom_2d of
                                 None \<Rightarrow> Inr None
                               | Some g2 \<Rightarrow> Inr (wkb_dumps sh g2)))))))"

subsection \<open>parse_numeric\<close>

text \<open>
  Python's \<open>float\<close> is a parameter: it returns a float or raises. The body of the
  \<open>try\<close> of \<open>_parse_numeric\<close> comes first, then the function with its handler, which
  catches every exception.
\<close>

definition parse_numeric_try ::
  "(pyval \<Rightarrow> py_error + pyfloat) \<Rightarrow> pyval \<Rightarrow> py_error + pyfloat option" where
  "parse_numeric_try py_float val =
     (if val \<in> set [PyNone, PyStr '''', PyStr ''null'', PyStr ''nan''] then Inr None
      else (case py_float val of Inl e \<Rightarrow> Inl e | Inr x \<Rightarrow> Inr (Some x)))"

definition parse_numeric ::
  "(pyval \<Rightarrow> py_error + pyfloat) \<Rightarrow> pyval \<Rightarrow> py_error + pyfloat option" where
  "parse_numeric py_float val =
     (case parse_numeric_try py_float val of Inl e \<Rightarrow> Inr None | Inr result \<Rightarrow> Inr result)"

text \<open>A stand-in for \<open>float\<close> on a few inputs, used to run the model.\<close>

definition sample_float :: "pyval \<Rightarrow> py_error + pyfloat" where
  "sample_float val =
     (case val of
        PyFloat x \<Rightarrow> Inr x
      | PyStr s \<Rightarrow>
          if s = ''1.5'' then Inr (Fin (3 / 2))
          else if s = ''nan'' then Inr NaN
          else Inl ValueError
      | _ \<Rightarrow> Inl TypeError)"

text \<open>
  Stand-ins for the geometry library on degenerate inputs. In the first, \<open>make_valid\<close>
  turns any geometry into a valid line and every area is zero; in the second nothing is
  ever valid and every area is zero; in the third the self-crossing square is the one
  invalid polygon.
\<close>

definition collapsing_shapely :: shapely where
  "collapsing_shapely =
     \<lparr>is_valid = (\<lambda>g. \<not> is_Polygon g), is_empty = (\<lambda>g. False), area = (\<lambda>g. 0),
      make_valid = (\<lambda>g. Some (OtherGeometry ''LineString'' [[Fin 0, Fin 0], [Fin 2, Fin 2]])),
      simplify = Some, buffer0 = Some, json_roundtrip = Some,
      wkt_reload = Some, wkb_dumps = (\<lambda>g. Some [])\<rparr>"

definition stubborn_shapely :: shapely where
  "stubborn_shapely =
     \<lparr>is_valid = (\<lambda>g. False), is_empty = (\<lambda>g. False), area = (\<lambda>g. 0),
      make_valid = Some, simplify = Some, buffer0 = Some, json_roundtrip = Some,
      wkt_reload = Some, wkb_dumps = (\<lambda>g. Some [])\<rparr>"

definition bowtie :: ring where
  "bowtie = [[Fin 0, Fin 0], [Fin 1, Fin 1], [Fin 1, Fin 0], [Fin 0, Fin 1], [Fin 0, Fin 0]]"

definition bowtie_z :: ring where
  "bowtie_z = map (\<lambda>c. c @ [Fin 7]) bowtie"

definition bowtie_shapely :: shapely where
  "bowtie_shapely =
     \<lparr>is_valid = (\<lambda>g. g \<noteq> Polygon bowtie [] \<and> g \<noteq> Polygon bowtie_z []),
      is_empty = (\<lambda>g. False), area = (\<lambda>g. 1),
      make_valid = Some, simplify = Some, buffer0 = Some, json_roundtrip = Some,
      wkt_reload = Some, wkb_dumps = (\<lambda>g. Some [])\<rparr>"

definition square_z :: ring where
  "square_z =
     [[Fin 0, Fin 0, Fin 7], [Fin 9, Fin 0, Fin 7], [Fin 9, Fin 9, Fin 7], [Fin 0, Fin 9, Fin 7],
      [Fin 0, Fin 0, Fin 7]]"

definition hole_z :: ring where
  "hole_z = [[Fin 1, Fin 1, Fin 7], [Fin 2, Fin 1, Fin 7], [Fin 2, Fin 2, Fin 7], [Fin 1, Fin 1, Fin 7]]"

text \<open>
  A stand-in in which only polygons other than the self-crossing square are valid, and
  \<open>buffer\<close> gives a plain square.
\<close>

definition salvaging_shapely :: shapely where
  "salvaging_shapely =
     bowtie_shapely\<lparr>is_valid := (\<lambda>g. is_Polygon g \<and> g \<noteq> Polygon bowtie []),
       buffer0 := (\<lambda>g. Some (Polygon (map (take 2) square_z) []))\<rparr>"

section \<open>The upsert loop of update_parcel_data\<close>

subsection \<open>Rows, features and the table\<close>

text \<open>
  The columns that both the UPDATE and the INSERT statements write from a feature.
\<close>

record columns =
  owner_name :: pyval
  physical_address :: pyval
  mailing_address :: pyval
  acreage :: "pyfloat option"
  property_value :: "pyfloat option"
  land_type_description :: pyval
  deed_reference :: pyval
  owner_city :: pyval
  owner_state :: pyval
  owner_zip :: pyval
  property_details_link :: pyval
  tax_details_link :: pyval
  clerk_records_link :: pyval
  address :: pyval
  county :: pyval
  state :: pyval

text \<open>
  A row of the table. The serial id and the two timestamps are left out: no statement of
  the loop reads them. \<open>global_parcel_uid\<close> is declared UNIQUE NOT NULL.
\<close>

record db_row =
  global_parcel_uid :: pyval
  county_parcel_id_num :: pyval
  cols :: columns
  geometry_col :: "wkb option"
  has_spatial_data :: bool

text \<open>
  A row of the GeoDataFrame: its properties, its geometry, and its index label. The loop
  reads the properties with \<open>row.get(key, default)\<close>.
\<close>

record feature =
  props :: "string \<Rightarrow> pyval option"
  feat_geometry :: "geometry option"
  idx :: nat

definition row_get :: "feature \<Rightarrow> string \<Rightarrow> pyval \<Rightarrow> pyval" where
  "row_get row key dflt = (case props row key of None \<Rightarrow> dflt | Some v \<Rightarrow> v)"

text \<open>\<open>str(idx)\<close>, the decimal digits of the index label.\<close>

function str_nat :: "nat \<Rightarrow> string" where
  "str_nat n =
     (if n < 10 then [char_of (48 + n)]
      else str_nat (n div 10) @ [char_of (48 + n mod 10)])"
  by pat_completeness auto
termination
  by (relation "measure id") auto

declare str_nat.simps [simp del]

text \<open>
  What the database does is not decided by the loop: any statement may raise. Which of
  the statements run for a row raise is an input of the model, one flag for
  \<open>json.dumps\<close> of the cleaned properties, one for the SELECT, one for the write that
  carries a geometry and one for the write without. Whether the commit of a batch raises
  is given by the number of the batch.
\<close>

record faults =
  json_dumps_raises :: bool
  select_raises :: bool
  spatial_write_raises :: bool
  plain_write_raises :: bool

definition no_faults :: faults where
  "no_faults =
     \<lparr>json_dumps_raises = False, select_raises = False,
      spatial_write_raises = False, plain_write_raises = False\<rparr>"

text \<open>
  The counters and sets of the run, with the table: \<open>committed\<close> is what is persisted,
  \<open>pending\<close> is the table as the open transaction of the connection sees it.
  \<open>conn.rollback()\<close> discards the open transaction, \<open>conn.commit()\<close> persists it.
\<close>

record run_state =
  successful_inserts :: nat
  skipped_rows :: nat
  spatial_count :: nat
  non_spatial_count :: nat
  geometry_conversion_failures :: nat
  null_geometries :: nat
  empty_geometries :: nat
  processed_parcel_ids :: "pyval set"
  successful_parcel_ids :: "pyval set"
  failed_parcel_ids :: "pyval set"
  duplicate_parcel_ids :: "pyval set"
  parcel_id_count :: "pyval \<Rightarrow> nat option"
  committed :: "db_row list"
  pending :: "db_row list"

definition rollback :: "run_state \<Rightarrow> run_state" where
  "rollback st = st\<lparr>pending := committed st\<rparr>"

definition commit :: "run_state \<Rightarrow> run_state" where
  "commit st = st\<lparr>committed := pending st\<rparr>"

subsection \<open>The statements\<close>

text \<open>
  \<open>WHERE global_parcel_uid = %s\<close> selects no row when the parameter is NULL. An
  INSERT violates the constraints of the column when the identifier is NULL or already
  in the table.
\<close>

definition sql_matches :: "pyval \<Rightarrow> db_row \<Rightarrow> bool" where
  "sql_matches uid r = (uid \<noteq> PyNone \<and> global_parcel_uid r = uid)"

definition select_id :: "db_row list \<Rightarrow> pyval \<Rightarrow> bool" where
  "select_id tbl uid = list_ex (sql_matches uid) tbl"

definition sql_update ::
  "db_row list \<Rightarrow> pyval \<Rightarrow> columns \<Rightarrow> wkb option \<Rightarrow> bool \<Rightarrow> db_row list" where
  "sql_update tbl uid c g h =
     map (\<lambda>r. if sql_matches uid r
               then r\<lparr>cols := c, geometry_col := g, has_spatial_data := h\<rparr> else r) tbl"

definition insert_violates :: "db_row list \<Rightarrow> pyval \<Rightarrow> bool" where
  "insert_violates tbl uid = (uid = PyNone \<or> list_ex (\<lambda>r. global_parcel_uid r = uid) tbl)"

definition sql_insert ::
  "db_row list \<Rightarrow> pyval \<Rightarrow> pyval \<Rightarrow> columns \<Rightarrow> wkb option \<Rightarrow> bool \<Rightarrow> db_row list" where
  "sql_insert tbl uid parcel_id c g h =
     tbl @ [\<lparr>global_parcel_uid = uid, county_parcel_id_num = parcel_id, cols = c,
             geometry_col = g, has_spatial_data = h\<rparr>]"

subsection \<open>One row\<close>

definition track_parcel_id :: "run_state \<Rightarrow> pyval \<Rightarrow> run_state" where
  "track_parcel_id st uid =
     (if uid \<noteq> PyNone then
        (case parcel_id_count st uid of
           Some n \<Rightarrow>
             st\<lparr>processed_parcel_ids := insert uid (processed_parcel_ids st),
                parcel_id_count := (parcel_id_count st)(uid \<mapsto> n + 1),
                duplicate_parcel_ids := insert uid (duplicate_parcel_ids st)\<rparr>
         | None \<Rightarrow>
             st\<lparr>processed_parcel_ids := insert uid (processed_parcel_ids st),
                parcel_id_count := (parcel_id_count st)(uid \<mapsto> 1)\<rparr>)
      else st)"

definition row_columns ::
  "pyval \<Rightarrow> feature \<Rightarrow> pyfloat option \<Rightarrow> pyfloat option \<Rightarrow> columns" where
  "row_columns county_name row acreage_val property_value_val =
     \<lparr>owner_name = row_get row ''owner_name'' (PyStr ''''),
      physical_address = row_get row ''physical_address'' (PyStr ''''),
      mailing_address = row_get row ''mailing_address'' (PyStr ''''),
      acreage = acreage_val,
      property_value = property_value_val,
      land_type_description = row_get row ''land_type/description'' (PyStr ''''),
      deed_reference = row_get row ''deed_reference'' (PyStr ''''),
      owner_city = row_get row ''owner_city'' (PyStr ''''),
      owner_state = row_get row ''owner_state'' (PyStr ''''),
      owner_zip = row_get row ''owner_zip'' (PyStr ''''),
      property_details_link = row_get row ''property_details_link'' (PyStr ''''),
      tax_details_link = row_get row ''tax_details_link'' (PyStr ''''),
      clerk_records_link = row_get row ''clerk_records_link'' (PyStr ''''),
      address = row_get row ''physical_address'' (PyStr ''''),
      county = row_get row ''county'' county_name,
      state = row_get row ''state'' (PyStr '''')\<rparr>"

text \<open>
  The geometry of the row: \<open>Inl\<close> the state when \<open>safe_geometry_to_wkb\<close> raised,
  \<open>Inr\<close> the state with the encoded geometry otherwise.
\<close>

definition geometry_stage ::
  "shapely \<Rightarrow> run_state \<Rightarrow> geometry option \<Rightarrow> pyval \<Rightarrow> run_state + run_state \<times> wkb option" where
  "geometry_stage sh st geom uid =
     (case geom of
        None \<Rightarrow> Inr (st\<lparr>null_geometries := null_geometries st + 1\<rparr>, None)
      | Some g \<Rightarrow>
          if \<not> is_empty sh g then
            (case safe_geometry_to_wkb sh geom uid of
               Inl e \<Rightarrow> Inl st
             | Inr wkb_geometry \<Rightarrow>
                 if wkb_geometry = None
                 then Inr (st\<lparr>geometry_conversion_failures :=
                                 geometry_conversion_failures st + 1\<rparr>, None)
                 else Inr (st, wkb_geometry))
          else Inr (st\<lparr>empty_geometries := empty_geometries st + 1\<rparr>, None))"

text \<open>
  The UPDATE of an existing row and the INSERT of a new one: \<open>Inl\<close> the state at the
  point where an exception leaves for the handler of the row, \<open>Inr\<close> the state after the
  write. A write with a geometry that raises is retried without the geometry.
\<close>

definition update_existing ::
  "faults \<Rightarrow> run_state \<Rightarrow> pyval \<Rightarrow> columns \<Rightarrow> wkb option \<Rightarrow> run_state + run_state" where
  "update_existing flt st uid c wkb_geometry =
     (if wkb_geometry \<noteq> None then
        (if spatial_write_raises flt then
           (let st1 = st\<lparr>geometry_conversion_failures := geometry_conversion_failures st + 1\<rparr>
            in if plain_write_raises flt then Inl st1
               else Inr (st1\<lparr>pending := sql_update (pending st1) uid c None False,
                              non_spatial_count := non_spatial_count st1 + 1,
                              successful_parcel_ids := insert uid (successful_parcel_ids st1)\<rparr>))
         else Inr (st\<lparr>pending := sql_update (pending st) uid c wkb_geometry True,
                       spatial_count := spatial_count st + 1,
                       successful_parcel_ids := insert uid (successful_parcel_ids st)\<rparr>))
      else
        (if plain_write_raises flt then Inl st
         else Inr (st\<lparr>pending := sql_update (pending st) uid c None False,
                       non_spatial_count := non_spatial_count st + 1,
                       successful_parcel_ids := insert uid (successful_parcel_ids st)\<rparr>)))"

definition insert_new ::
  "faults \<Rightarrow> run_state \<Rightarrow> pyval \<Rightarrow> pyval \<Rightarrow> columns \<Rightarrow> wkb option \<Rightarrow> run_state + run_state" where
  "insert_new flt st uid parcel_id c wkb_geometry =
     (if wkb_geometry \<noteq> None then
        (if spatial_write_raises flt \<or> insert_violates (pending st) uid then
           (let st1 = st\<lparr>geometry_conversion_failures := geometry_conversion_failures st + 1,
                          failed_parcel_ids := insert uid (failed_parcel_ids st)\<rparr>
            in if plain_write_raises flt \<or> insert_violates (pending st1) uid then Inl st1
               else Inr (st1\<lparr>pending := sql_insert (pending st1) uid parcel_id c None False,
                              non_spatial_count := non_spatial_count st1 + 1,
                              successful_parcel_ids := insert uid (successful_parcel_ids st1)\<rparr>))
         else Inr (st\<lparr>pending := sql_insert (pending st) uid parcel_id c wkb_geometry True,
                       spatial_count := spatial_count st + 1,
                       successful_parcel_ids := insert uid (successful_parcel_ids st)\<rparr>))
      else
        (if plain_write_raises flt \<or> insert_violates (pending st) uid then Inl st
         else Inr (st\<lparr>pending := sql_insert (pending st) uid parcel_id c None False,
                       non_spatial_count := non_spatial_count st + 1,
                       successful_parcel_ids := insert uid (successful_parcel_ids st)\<rparr>)))"

definition feature_uid :: "feature \<Rightarrow> pyval" where
  "feature_uid row = row_get row ''global_parcel_uid'' (PyStr '''')"

definition feature_parcel_id :: "feature \<Rightarrow> pyval" where
  "feature_parcel_id row = row_get row ''county_parcel_id_num'' (PyStr (str_nat (idx row)))"

text \<open>The body of the \<open>try\<close> of one row, up to the write.\<close>

definition row_try ::
  "shapely \<Rightarrow> (pyval \<Rightarrow> py_error + pyfloat) \<Rightarrow> pyval \<Rightarrow> run_state \<Rightarrow> feature \<Rightarrow> faults
     \<Rightarrow> run_state + run_state" where
  "row_try sh py_float county_name st row flt =
     (let uid = feature_uid row; parcel_id = feature_parcel_id row in
      case parse_numeric py_float (row_get row ''acreage'' (PyStr '''')) of
        Inl e \<Rightarrow> Inl st
      | Inr acreage_val \<Rightarrow>
          (case parse_numeric py_float (row_get row ''property_value'' (PyStr '''')) of
             Inl e \<Rightarrow> Inl st
           | Inr property_value_val \<Rightarrow>
               (let st1 = track_parcel_id st uid in
                if json_dumps_raises flt then Inl st1
                else if select_raises flt then Inl st1
                else
                  (case geometry_stage sh st1 (feat_geometry row) uid of
                     Inl st2 \<Rightarrow> Inl st2
                   | Inr (st2, wkb_geometry) \<Rightarrow>
                       (let c = row_columns county_name row acreage_val property_value_val in
                        if select_id (pending st2) uid
                        then update_existing flt st2 uid c wkb_geometry
                        else insert_new flt st2 uid parcel_id c wkb_geometry)))))"

text \<open>
  One iteration of the loop over the rows of a batch: the \<open>try\<close> and its handler, which
  marks the row failed, counts it as skipped and calls \<open>conn.rollback()\<close>.
\<close>

definition process_row ::
  "shapely \<Rightarrow> (pyval \<Rightarrow> py_error + pyfloat) \<Rightarrow> pyval \<Rightarrow> run_state \<Rightarrow> feature \<times> faults
     \<Rightarrow> run_state" where
  "process_row sh py_float county_name st rf =
     (case row_try sh py_float county_name st (fst rf) (snd rf) of
        Inr st' \<Rightarrow> st'\<lparr>successful_inserts := successful_inserts st' + 1\<rparr>
      | Inl st' \<Rightarrow>
          rollback (st'\<lparr>failed_parcel_ids := insert (feature_uid (fst rf)) (failed_parcel_ids st'),
                        skipped_rows := skipped_rows st' + 1\<rparr>))"

subsection \<open>The batches\<close>

definition batch_size :: nat where
  "batch_size = 1000"

definition commit_batch :: "bool \<Rightarrow> run_state \<Rightarrow> run_state" where
  "commit_batch commit_raises st = (if commit_raises then rollback st else commit st)"

function update_batches ::
  "shapely \<Rightarrow> (pyval \<Rightarrow> py_error + pyfloat) \<Rightarrow> pyval \<Rightarrow> (nat \<Rightarrow> bool) \<Rightarrow> nat \<Rightarrow> run_state
     \<Rightarrow> (feature \<times> faults) list \<Rightarrow> run_state" where
  "update_batches sh py_float county_name commit_raises batch_no st rows =
     (if rows = [] then st
      else update_batches sh py_float county_name commit_raises (batch_no + 1)
             (commit_batch (commit_raises batch_no)
                (foldl (process_row sh py_float county_name) st (take batch_size rows)))
             (drop batch_size rows))"
  by pat_completeness auto
termination
  by (relation "measure (\<lambda>(sh, py_float, county_name, commit_raises, batch_no, st, rows). length rows)")
     (auto simp: batch_size_def)

declare update_batches.simps [simp del]

definition initial_state :: "db_row list \<Rightarrow> run_state" where
  "initial_state table =
     \<lparr>successful_inserts = 0, skipped_rows = 0, spatial_count = 0, non_spatial_count = 0,
      geometry_conversion_failures = 0, null_geometries = 0, empty_geometries = 0,
      processed_parcel_ids = {}, successful_parcel_ids = {}, failed_parcel_ids = {},
      duplicate_parcel_ids = {}, parcel_id_count = Map.empty,
      committed = table, pending = table\<rparr>"

text \<open>
  \<open>update_parcel_data\<close> on the rows read from the file, against a table: the state at
  the end of the loop, from which the report is printed. Closing the connection discards
  an open transaction.
\<close>

definition update_parcel_data ::
  "shapely \<Rightarrow> (pyval \<Rightarrow> py_error + pyfloat) \<Rightarrow> pyval \<Rightarrow> (nat \<Rightarrow> bool) \<Rightarrow> db_row list
     \<Rightarrow> (feature \<times> faults) list \<Rightarrow> run_state" where
  "update_parcel_data sh py_float county_name commit_raises table rows =
     rollback (update_batches sh py_float county_name commit_raises 0 (initial_state table) rows)"

subsection \<open>Notions used to state the properties of the loop\<close>

text \<open>
  The value \<open>_parse_numeric\<close> returns, the encoded geometry the loop obtains for a
  row, and the state after the geometry counters were updated.
\<close>

definition numeric_value :: "(pyval \<Rightarrow> py_error + pyfloat) \<Rightarrow> pyval \<Rightarrow> pyfloat option" where
  "numeric_value py_float x = (case parse_numeric py_float x of Inr v \<Rightarrow> v | Inl _ \<Rightarrow> None)"

definition encoded_geometry :: "shapely \<Rightarrow> geometry option \<Rightarrow> pyval \<Rightarrow> wkb option" where
  "encoded_geometry sh geom uid =
     (case geom of
        None \<Rightarrow> None
      | Some g \<Rightarrow>
          if is_empty sh g then None
          else (case safe_geometry_to_wkb sh geom uid of Inr w \<Rightarrow> w | Inl _ \<Rightarrow> None))"

definition count_geometry :: "shapely \<Rightarrow> run_state \<Rightarrow> geometry option \<Rightarrow> pyval \<Rightarrow> run_state" where
  "count_geometry sh st geom uid =
     (case geom of
        None \<Rightarrow> st\<lparr>null_geometries := null_geometries st + 1\<rparr>
      | Some g \<Rightarrow>
          if is_empty sh g then st\<lparr>empty_geometries := empty_geometries st + 1\<rparr>
          else if encoded_geometry sh geom uid = None
          then st\<lparr>geometry_conversion_failures := geometry_conversion_failures st + 1\<rparr>
          else st)"

text \<open>
  The columns and the geometry that the statements of a row write, and the effect on the
  table of a row for which nothing raises.
\<close>

definition written_columns ::
  "(pyval \<Rightarrow> py_error + pyfloat) \<Rightarrow> pyval \<Rightarrow> feature \<Rightarrow> columns" where
  "written_columns py_float county_name row =
     row_columns county_name row
       (numeric_value py_float (row_get row ''acreage'' (PyStr '''')))
       (numeric_value py_float (row_get row ''property_value'' (PyStr '''')))"

definition written_geometry :: "shapely \<Rightarrow> feature \<Rightarrow> wkb option" where
  "written_geometry sh row = encoded_geometry sh (feat_geometry row) (feature_uid row)"

definition upsert ::
  "shapely \<Rightarrow> (pyval \<Rightarrow> py_error + pyfloat) \<Rightarrow> pyval \<Rightarrow> db_row list \<Rightarrow> feature \<Rightarrow> db_row list" where
  "upsert sh py_float county_name tbl row =
     (let uid = feature_uid row;
          c = written_columns py_float county_name row;
          w = written_geometry sh row
      in if select_id tbl uid then sql_update tbl uid c w (w \<noteq> None)
         else sql_insert tbl uid (feature_parcel_id row) c w (w \<noteq> None))"

text \<open>Rows for which no statement raises and whose identifier is not null.\<close>

definition clean_rows :: "(feature \<times> faults) list \<Rightarrow> bool" where
  "clean_rows rows =
     list_all (\<lambda>rf. snd rf = no_faults \<and> feature_uid (fst rf) \<noteq> PyNone) rows"

text \<open>The rows of a table with a given identifier; the features of an input with it.\<close>

definition rows_for :: "pyval \<Rightarrow> db_row list \<Rightarrow> db_row list" where
  "rows_for uid tbl = filter (\<lambda>r. global_parcel_uid r = uid) tbl"

definition features_for :: "pyval \<Rightarrow> (feature \<times> faults) list \<Rightarrow> feature list" where
  "features_for uid rows = filter (\<lambda>row. feature_uid row = uid) (map fst rows)"

text \<open>
  The bookkeeping of duplicates for one identifier after it was seen \<open>n\<close> times.
\<close>

definition seen :: "pyval \<Rightarrow> nat \<Rightarrow> run_state \<Rightarrow> bool" where
  "seen uid n st =
     (parcel_id_count st uid = (if n = 0 then None else Some n) \<and>
      (uid \<in> duplicate_parcel_ids st) = (2 \<le> n))"

text \<open>A row written from a feature, and features with a few properties to run the model on.\<close>

definition written_by ::
  "shapely \<Rightarrow> (pyval \<Rightarrow> py_error + pyfloat) \<Rightarrow> pyval \<Rightarrow> feature \<Rightarrow> db_row \<Rightarrow> bool" where
  "written_by sh py_float county_name row r =
     (cols r = written_columns py_float county_name row \<and>
      geometry_col r = written_geometry sh row \<and>
      has_spatial_data r = (written_geometry sh row \<noteq> None))"

definition sample_feature :: "string \<Rightarrow> string \<Rightarrow> string \<Rightarrow> geometry option \<Rightarrow> nat \<Rightarrow> feature" where
  "sample_feature uid parcel_id ownr geom i =
     \<lparr>props = map_of [(''global_parcel_uid'', PyStr uid), (''county_parcel_id_num'', PyStr parcel_id),
                       (''owner_name'', PyStr ownr)],
      feat_geometry = geom, idx = i\<rparr>"

text \<open>
  The scenario of the specification: 1500 features numbered from 1, with identifiers the
  decimal numbers, no geometry, and a write that raises for the feature numbered 750 only.
\<close>

definition numbered_feature :: "nat \<Rightarrow> feature" where
  "numbered_feature i =
     \<lparr>props = map_of [(''global_parcel_uid'', PyStr (str_nat i))], feat_geometry = None, idx = i\<rparr>"

definition write_fault :: faults where
  "write_fault = no_faults\<lparr>plain_write_raises := True\<rparr>"

definition scenario_row :: "nat \<Rightarrow> nat \<Rightarrow> feature \<times> faults" where
  "scenario_row k i = (numbered_feature i, if i = k then write_fault else no_faults)"

definition scenario_1500 :: "(feature \<times> faults) list" where
  "scenario_1500 = map (scenario_row 750) [1..<1501]"

section \<open>Properties of the coordinate checks\<close>

lemma clean_loop_eq:
  "clean_loop coords cleaned dropped =
     (cleaned @ map keep_coord (filter is_valid_coord coords),
      dropped + length (filter (\<lambda>c. \<not> is_valid_coord c) coords))"
  by (induction coords arbitrary: cleaned dropped) simp_all

lemma fst_clean_coords:
  "fst (clean_coords coords label) = map keep_coord (filter is_valid_coord coords)"
  by (simp add: clean_coords_def clean_loop_eq)

lemma snd_clean_coords:
  "snd (clean_coords coords label) =
     (if length (filter (\<lambda>c. \<not> is_valid_coord c) coords) > 0
      then [Dropped (length (filter (\<lambda>c. \<not> is_valid_coord c) coords)) (length coords) label]
      else [])"
  by (simp add: clean_coords_def clean_loop_eq)




text \<open>
  C7. \<open>is_valid_coord\<close> is false exactly when the coordinate has fewer than two
  ordinates, or its longitude or latitude is NaN or infinite, or the longitude is outside
  [-180, 180], or the latitude is outside [-90, 90]; that is, it is true exactly when the
  first two ordinates exist, are finite and lie in these bounds. The function is pure.
\<close>

theorem is_valid_coord_iff:
  "(is_valid_coord coord = False) =
     (length coord < 2 \<or>
      coord ! 0 = NaN \<or> coord ! 1 = NaN \<or>
      coord ! 0 = PosInf \<or> coord ! 0 = NegInf \<or> coord ! 1 = PosInf \<or> coord ! 1 = NegInf \<or>
      (\<exists>lon. coord ! 0 = Fin lon \<and> (lon < - 180 \<or> 180 < lon)) \<or>
      (\<exists>lat. coord ! 1 = Fin lat \<and> (lat < - 90 \<or> 90 < lat))) \<and>
   is_valid_coord coord =
     (2 \<le> length coord \<and>
      (\<exists>lon lat. coord ! 0 = Fin lon \<and> coord ! 1 = Fin lat \<and>
         - 180 \<le> lon \<and> lon \<le> 180 \<and> - 90 \<le> lat \<and> lat \<le> 90))"
  by (cases "coord ! 0"; cases "coord ! 1")
     (auto simp: is_valid_coord_def isnan_def isinf_def fl_lt_def fl_gt_def Let_def)


lemma validate_polygon_eq:
  "validate_and_clean_coordinates sh (Polygon ext ints) =
     (if length (filter is_valid_coord ext) < 4 then None
      else
        let poly = Polygon (map keep_coord (filter is_valid_coord ext))
                     (filter (\<lambda>r. 4 \<le> length r)
                        (map (\<lambda>r. map keep_coord (filter is_valid_coord r)) ints))
        in if is_valid sh poly then Some poly else None)"
  by (simp add: validate_and_clean_coordinates_def clean_polygon_def fst_clean_coords Let_def)

text \<open>
  C5, as stated, fails: \<open>clean_coords\<close> is not a plain filter, since a valid coordinate
  with a Z ordinate does not appear in the result as it was.
\<close>

theorem clean_coords_not_plain_filter:
  "is_valid_coord [Fin 1, Fin 2, Fin 3] \<and>
   [Fin 1, Fin 2, Fin 3] \<notin> set (fst (clean_coords [[Fin 1, Fin 2, Fin 3]] ''exterior ring''))"
  by (simp add: fst_clean_coords keep_coord_def is_valid_coord_def
      isnan_def isinf_def fl_lt_def fl_gt_def)

text \<open>
  C5, amended. \<open>clean_coords\<close> removes exactly the invalid coordinates and keeps the
  valid ones in their original order, each cut to its first two ordinates when it has
  more; the line it prints carries the number of invalid coordinates and is printed only
  when that number is positive. In the caller, an exterior ring left with fewer than 4
  points makes the result of the whole Polygon none, while an interior ring left with
  fewer than 4 points is only left out of the interior rings.
\<close>

theorem clean_coords_filter_then_truncate:
  "fst (clean_coords coords label) = map keep_coord (filter is_valid_coord coords) \<and>
   snd (clean_coords coords label) =
     (let dropped = length (filter (\<lambda>c. \<not> is_valid_coord c) coords)
      in if dropped > 0 then [Dropped dropped (length coords) label] else []) \<and>
   validate_and_clean_coordinates sh (Polygon ext ints) =
     (if length (fst (clean_coords ext ''exterior ring'')) < 4 then None
      else
        let poly = Polygon (fst (clean_coords ext ''exterior ring''))
                     (filter (\<lambda>r. 4 \<le> length r)
                        (map (\<lambda>r. fst (clean_coords r ''interior ring'')) ints))
        in if is_valid sh poly then Some poly else None)"
  by (simp add: fst_clean_coords snd_clean_coords validate_polygon_eq Let_def)




text \<open>
  C10. A geometry whose type is neither Polygon nor MultiPolygon is returned by
  \<open>_validate_and_clean_coordinates\<close> as it is: none of its coordinates is checked, so a
  Point outside the longitude and latitude bounds passes the cleaning stage untouched.
\<close>

theorem validate_passes_non_polygonal:
  "\<not> is_Polygon geometry \<Longrightarrow> \<not> is_MultiPolygon geometry \<Longrightarrow>
   validate_and_clean_coordinates sh geometry = Some geometry"
  by (cases geometry) (simp_all add: validate_and_clean_coordinates_def)

theorem validate_passes_non_polygonal_witness:
  "is_Point (Point [Fin 200, Fin 100]) \<and> is_valid_coord [Fin 200, Fin 100] = False \<and>
   validate_and_clean_coordinates accepting_shapely (Point [Fin 200, Fin 100])
     = Some (Point [Fin 200, Fin 100])"
  using validate_passes_non_polygonal [of "Point [Fin 200, Fin 100]" accepting_shapely]
  by (simp add: is_valid_coord_def isnan_def isinf_def fl_lt_def fl_gt_def)

section \<open>Properties of repair, conversion and encoding\<close>

text \<open>
  C3, as stated, fails: on an invalid geometry of zero area for which \<open>make_valid\<close>
  gives a valid geometry (a polygon collapsed onto a line becomes that line),
  \<open>_repair_geometry\<close> returns this geometry, not none.
\<close>

theorem repair_geometry_zero_area_not_none:
  "is_valid collapsing_shapely (Polygon [[Fin 0, Fin 0], [Fin 1, Fin 1], [Fin 2, Fin 2], [Fin 0, Fin 0]] [])
     = False \<and>
   area collapsing_shapely (Polygon [[Fin 0, Fin 0], [Fin 1, Fin 1], [Fin 2, Fin 2], [Fin 0, Fin 0]] [])
     = 0 \<and>
   repair_geometry collapsing_shapely
       (Polygon [[Fin 0, Fin 0], [Fin 1, Fin 1], [Fin 2, Fin 2], [Fin 0, Fin 0]] [])
     = Some (OtherGeometry ''LineString'' [[Fin 0, Fin 0], [Fin 2, Fin 2]])"
  by (simp add: repair_geometry_def collapsing_shapely_def)

text \<open>
  C3, amended. \<open>_repair_geometry\<close> returns none when \<open>make_valid\<close> raises, and
  returns the result of \<open>make_valid\<close> whenever that result is valid, whatever the area
  of the input. When the result of \<open>make_valid\<close> is still invalid, it returns none in
  every case but two. A Polygon whose area is below 1e-10 is rejected outright, whatever
  \<open>simplify\<close> and \<open>buffer\<close> would give; a Polygon of larger area is simplified and
  buffered, and the outcome is returned only if it is valid and has positive area. Of a
  MultiPolygon the valid parts of area above 1e-10 are returned as a MultiPolygon, if
  there is any. Every other type gives none.
\<close>

theorem repair_geometry_cases:
  "(make_valid sh geometry = None \<longrightarrow> repair_geometry sh geometry = None) \<and>
   (\<forall>repaired. make_valid sh geometry = Some repaired \<and> is_valid sh repaired \<longrightarrow>
      repair_geometry sh geometry = Some repaired) \<and>
   (\<forall>repaired. make_valid sh geometry = Some repaired \<and> \<not> is_valid sh repaired \<and>
        is_Polygon repaired \<and> area sh repaired < 1 / 10 ^ 10 \<longrightarrow>
      repair_geometry sh geometry = None) \<and>
   (\<forall>repaired. make_valid sh geometry = Some repaired \<and> \<not> is_valid sh repaired \<and>
        is_Polygon repaired \<and> 1 / 10 ^ 10 \<le> area sh repaired \<longrightarrow>
      repair_geometry sh geometry =
        (case simplify sh repaired of
           None \<Rightarrow> None
         | Some simplified \<Rightarrow>
             (case buffer0 sh simplified of
                None \<Rightarrow> None
              | Some buffered \<Rightarrow>
                  if is_valid sh buffered \<and> 0 < area sh buffered then Some buffered else None))) \<and>
   (\<forall>repaired. make_valid sh geometry = Some repaired \<and> \<not> is_valid sh repaired \<and>
        is_MultiPolygon repaired \<longrightarrow>
      repair_geometry sh geometry =
        (if list_ex (\<lambda>part. is_valid sh (poly_geom part) \<and> 1 / 10 ^ 10 < area sh (poly_geom part))
              (geoms repaired)
         then Some (MultiPolygon
                (filter (\<lambda>part. is_valid sh (poly_geom part) \<and> 1 / 10 ^ 10 < area sh (poly_geom part))
                   (geoms repaired)))
         else None)) \<and>
   (\<forall>repaired. make_valid sh geometry = Some repaired \<and> \<not> is_valid sh repaired \<and>
        \<not> is_Polygon repaired \<and> \<not> is_MultiPolygon repaired \<longrightarrow>
      repair_geometry sh geometry = None)"
proof -
  have m: "\<And>repaired. is_MultiPolygon repaired \<Longrightarrow> \<not> is_Polygon repaired"
    by (case_tac repaired) simp_all
  show ?thesis
    by (auto simp: repair_geometry_def Let_def m filter_empty_conv list_ex_iff
        split: option.splits)
qed

theorem repair_geometry_cases_witness:
  "make_valid (stubborn_shapely\<lparr>make_valid := (\<lambda>g. None)\<rparr>) (Polygon bowtie []) = None \<and>
   repair_geometry (stubborn_shapely\<lparr>make_valid := (\<lambda>g. None)\<rparr>) (Polygon bowtie []) = None \<and>
   make_valid accepting_shapely (Polygon bowtie []) = Some (Polygon bowtie []) \<and>
   is_valid accepting_shapely (Polygon bowtie []) \<and>
   repair_geometry accepting_shapely (Polygon bowtie []) = Some (Polygon bowtie []) \<and>
   make_valid stubborn_shapely (Polygon bowtie []) = Some (Polygon bowtie []) \<and>
   is_valid stubborn_shapely (Polygon bowtie []) = False \<and>
   area stubborn_shapely (Polygon bowtie []) < 1 / 10 ^ 10 \<and>
   repair_geometry stubborn_shapely (Polygon bowtie []) = None \<and>
   is_valid salvaging_shapely (Polygon bowtie []) = False \<and>
   1 / 10 ^ 10 \<le> area salvaging_shapely (Polygon bowtie []) \<and>
   repair_geometry salvaging_shapely (Polygon bowtie [])
     = Some (Polygon (map (take 2) square_z) []) \<and>
   is_valid salvaging_shapely (MultiPolygon [(bowtie, []), (map (take 2) square_z, [])]) = False \<and>
   repair_geometry salvaging_shapely (MultiPolygon [(bowtie, []), (map (take 2) square_z, [])])
     = Some (MultiPolygon [(map (take 2) square_z, [])]) \<and>
   repair_geometry stubborn_shapely (MultiPolygon [(bowtie, [])]) = None \<and>
   is_valid stubborn_shapely (Point [Fin 0, Fin 0]) = False \<and>
   area stubborn_shapely (Point [Fin 0, Fin 0]) = 0 \<and>
   repair_geometry stubborn_shapely (Point [Fin 0, Fin 0]) = None"
proof -
  have ne: "map (take 2) square_z \<noteq> bowtie"
    by (simp add: square_z_def bowtie_def)
  show ?thesis
    using
      repair_geometry_cases [of "stubborn_shapely\<lparr>make_valid := (\<lambda>g. None)\<rparr>" "Polygon bowtie []"]
      repair_geometry_cases [of accepting_shapely "Polygon bowtie []"]
      repair_geometry_cases [of stubborn_shapely "Polygon bowtie []"]
      repair_geometry_cases [of salvaging_shapely "Polygon bowtie []"]
      repair_geometry_cases [of salvaging_shapely
        "MultiPolygon [(bowtie, []), (map (take 2) square_z, [])]"]
      repair_geometry_cases [of stubborn_shapely "MultiPolygon [(bowtie, [])]"]
      repair_geometry_cases [of stubborn_shapely "Point [Fin 0, Fin 0]"]
    by (simp add: stubborn_shapely_def accepting_shapely_def salvaging_shapely_def
        bowtie_shapely_def poly_geom_def ne)
qed

text \<open>
  C8. The claim fails on the code for a null geometry with the parcel id that the first
  debugging block looks for: the block reads \<open>geometry.geom_type\<close> before the test for
  null and outside the \<open>try\<close>, so an AttributeError leaves the function.
\<close>

theorem safe_geometry_to_wkb_raises_on_null:
  "safe_geometry_to_wkb sh None (PyStr ''teton_county_wy_000001'') = Inl AttributeError"
  by (simp add: safe_geometry_to_wkb_def)

lemma safe_geometry_to_wkb_returns:
  "parcel_id \<noteq> PyStr ''teton_county_wy_000001'' \<or> geometry \<noteq> None \<Longrightarrow>
   \<exists>result. safe_geometry_to_wkb sh geometry parcel_id = Inr result"
  by (auto simp: safe_geometry_to_wkb_def split: option.splits)

lemma safe_geometry_to_wkb_null_or_empty:
  "parcel_id \<noteq> PyStr ''teton_county_wy_000001'' \<Longrightarrow>
   safe_geometry_to_wkb sh None parcel_id = Inr None"
  "is_empty sh g \<Longrightarrow> safe_geometry_to_wkb sh (Some g) parcel_id = Inr None"
  by (simp_all add: safe_geometry_to_wkb_def)

text \<open>
  C9. \<open>_parse_numeric\<close> never raises, and it returns None for the value None, for the
  strings \<open>''\<close>, \<open>null\<close> and \<open>nan\<close>, and for every value on which \<open>float\<close> raises.
\<close>

theorem parse_numeric_absent:
  "(\<exists>result. parse_numeric py_float val = Inr result) \<and>
   (val \<in> {PyNone, PyStr '''', PyStr ''null'', PyStr ''nan''} \<or> isl (py_float val) \<longrightarrow>
      parse_numeric py_float val = Inr None)"
  by (auto simp: parse_numeric_def parse_numeric_try_def split: sum.splits)

theorem parse_numeric_absent_witness:
  "sample_float (PyStr ''nan'') = Inr NaN \<and>
   parse_numeric sample_float (PyStr ''nan'') = Inr None \<and>
   isl (sample_float (PyStr ''12 acres'')) \<and>
   parse_numeric sample_float (PyStr ''12 acres'') = Inr None \<and>
   parse_numeric sample_float PyNone = Inr None"
  using parse_numeric_absent [of sample_float "PyStr ''nan''"]
    parse_numeric_absent [of sample_float "PyStr ''12 acres''"]
    parse_numeric_absent [of sample_float PyNone]
  by (simp add: sample_float_def)

section \<open>Properties of the conversion to 2-D\<close>

lemma strip_z_take2:
  "list_all (\<lambda>c. 2 \<le> length c) ring \<Longrightarrow> strip_z ring = Some (map (take 2) ring)"
proof (induction ring)
  case Nil
  then show ?case by simp
next
  case (Cons c ring)
  then obtain x y zs where "c = x # y # zs"
    by (cases c; simp; cases "tl c"; simp)
  with Cons show ?case by simp
qed

lemma strip_rings_take2:
  "list_all (list_all (\<lambda>c. 2 \<le> length c)) rings \<Longrightarrow>
   strip_rings rings = Some (map (map (take 2)) rings)"
  by (induction rings) (simp_all add: strip_z_take2)

lemma strip_parts_eq:
  "list_all (\<lambda>p. list_all (\<lambda>c. 2 \<le> length c) (fst p) \<and>
                  list_all (list_all (\<lambda>c. 2 \<le> length c)) (snd p)) parts \<Longrightarrow>
   strip_parts sh parts =
     Some (filter (\<lambda>p. is_valid sh (poly_geom p) \<and> 4 \<le> length (fst p))
             (map (\<lambda>p. (map (take 2) (fst p), map (map (take 2)) (snd p))) parts))"
  by (induction parts) (simp_all add: strip_z_take2 strip_rings_take2 poly_geom_def)

lemma coords_polygon:
  "list_all P (polygon_coords p) = (list_all P (fst p) \<and> list_all (list_all P) (snd p))"
  by (simp add: polygon_coords_def list_all_iff) blast

lemma coords_multi:
  "list_all P (concat (map polygon_coords parts)) =
     list_all (\<lambda>p. list_all P (fst p) \<and> list_all (list_all P) (snd p)) parts"
  by (induction parts) (simp_all add: coords_polygon)

lemma take2_len: "2 \<le> length c \<Longrightarrow> length (take 2 c) = 2" by simp

lemma not_3d_2d: "list_all (\<lambda>c. length c = 2) ring \<Longrightarrow> \<not> is_3d ring"
  by (simp add: is_3d_def list_all_iff list_ex_iff)


lemma two_d_Polygon:
  "two_d (Polygon ext ints) = (list_all (\<lambda>c. length c = 2) ext \<and> list_all (list_all (\<lambda>c. length c = 2)) ints)"
  by (simp add: two_d_def geometry_coords_def coords_polygon)

lemma two_d_Multi:
  "two_d (MultiPolygon parts) = list_all (\<lambda>p. list_all (\<lambda>c. length c = 2) (fst p) \<and> list_all (list_all (\<lambda>c. length c = 2)) (snd p)) parts"
  by (simp add: two_d_def geometry_coords_def coords_multi)

lemma take2_ring: "list_all (\<lambda>c. 2 \<le> length c) ring \<Longrightarrow> list_all (\<lambda>c. length c = 2) (map (take 2) ring)"
  by (simp add: list_all_iff)

lemma take2_rings: "list_all (list_all (\<lambda>c. 2 \<le> length c)) rings \<Longrightarrow> list_all (list_all (\<lambda>c. length c = 2)) (map (map (take 2)) rings)"
  by (simp add: list_all_iff)

lemma convert_Polygon:
  assumes "list_all (\<lambda>c. 2 \<le> length c) (geometry_coords (Polygon ext ints))"
  shows "convert_3d_to_2d sh (Polygon ext ints) =
       Some (if is_3d ext then Polygon (map (take 2) ext) (map (map (take 2)) ints)
             else Polygon ext ints)"
  using assms
  by (simp add: convert_3d_to_2d_def convert_3d_to_2d_try_def geometry_coords_def
      coords_polygon strip_z_take2 strip_rings_take2)

lemma convert_MultiPolygon:
  assumes "list_all (\<lambda>c. 2 \<le> length c) (geometry_coords (MultiPolygon parts))"
  shows "convert_3d_to_2d sh (MultiPolygon parts) =
         (if list_all (\<lambda>p. \<not> is_3d (fst p)) parts then Some (MultiPolygon parts)
          else
            let valid_polys =
                  filter (\<lambda>p. is_valid sh (poly_geom p) \<and> 4 \<le> length (fst p))
                    (map (\<lambda>p. (map (take 2) (fst p), map (map (take 2)) (snd p))) parts)
            in if valid_polys \<noteq> [] then Some (MultiPolygon valid_polys) else None)"
  using assms
  by (simp add: convert_3d_to_2d_def convert_3d_to_2d_try_def geometry_coords_def
      coords_multi strip_parts_eq Let_def)

lemma two_d_kept:
  assumes "list_all (\<lambda>c. 2 \<le> length c) (geometry_coords (MultiPolygon parts))"
  shows "two_d (MultiPolygon (filter Q (map (\<lambda>p. (map (take 2) (fst p), map (map (take 2)) (snd p))) parts)))"
  using assms
  by (simp add: two_d_Multi geometry_coords_def coords_multi) (fastforce simp: list_all_iff)

lemma two_d_not_3d_parts: "two_d (MultiPolygon parts) \<Longrightarrow> list_all (\<lambda>p. \<not> is_3d (fst p)) parts"
  by (simp add: two_d_Multi list_all_iff not_3d_2d)

text \<open>
  C4, as stated, fails: a MultiPolygon with Z whose only part crosses itself is not
  turned into a geometry without Z; the part is dropped as invalid and the result is none.
\<close>

theorem convert_3d_to_2d_drops_invalid_part:
  "is_3d bowtie_z \<and> convert_3d_to_2d bowtie_shapely (MultiPolygon [(bowtie_z, [])]) = None"
  by (simp add: convert_3d_to_2d_def convert_3d_to_2d_try_def bowtie_z_def bowtie_def
      bowtie_shapely_def is_3d_def)

text \<open>
  C4, amended. Let every coordinate of the geometry have at least two ordinates. A Polygon
  whose exterior ring has a coordinate with more than two ordinates comes back with every
  coordinate of every ring, exterior and interior, cut to its first two ordinates; a
  Polygon whose exterior ring has none comes back as it is. A MultiPolygon none of whose
  exterior rings has such a coordinate comes back as it is; otherwise every ring of every
  part is cut in the same way, only the parts that are then valid and have at least 4
  exterior points are kept, and the result is none when no part is kept. A Polygon or
  MultiPolygon that is already 2-D comes back unchanged, and whenever a geometry other than
  the input comes back, none of its coordinates has a third ordinate.
\<close>

theorem convert_3d_to_2d_polygonal:
  assumes "list_all (\<lambda>c. 2 \<le> length c) (geometry_coords geometry)"
  shows
   "(\<forall>ext ints. geometry = Polygon ext ints \<longrightarrow>
       convert_3d_to_2d sh geometry =
         Some (if is_3d ext then Polygon (map (take 2) ext) (map (map (take 2)) ints)
               else geometry)) \<and>
    (\<forall>parts. geometry = MultiPolygon parts \<longrightarrow>
       convert_3d_to_2d sh geometry =
         (if list_all (\<lambda>p. \<not> is_3d (fst p)) parts then Some geometry
          else
            let valid_polys =
                  filter (\<lambda>p. is_valid sh (poly_geom p) \<and> 4 \<le> length (fst p))
                    (map (\<lambda>p. (map (take 2) (fst p), map (map (take 2)) (snd p))) parts)
            in if valid_polys \<noteq> [] then Some (MultiPolygon valid_polys) else None)) \<and>
    ((is_Polygon geometry \<or> is_MultiPolygon geometry) \<and> two_d geometry \<longrightarrow>
       convert_3d_to_2d sh geometry = Some geometry) \<and>
    (\<forall>result. (is_Polygon geometry \<or> is_MultiPolygon geometry) \<and>
         convert_3d_to_2d sh geometry = Some result \<and> result \<noteq> geometry \<longrightarrow>
       two_d result)"
proof (cases geometry)
  case (Polygon ext ints)
  have ok: "list_all (\<lambda>c. 2 \<le> length c) ext" "list_all (list_all (\<lambda>c. 2 \<le> length c)) ints"
    using assms Polygon by (simp_all add: geometry_coords_def coords_polygon)
  have c: "convert_3d_to_2d sh (Polygon ext ints) =
       Some (if is_3d ext then Polygon (map (take 2) ext) (map (map (take 2)) ints)
             else Polygon ext ints)"
    using assms Polygon convert_Polygon by simp
  have t: "two_d (Polygon (map (take 2) ext) (map (map (take 2)) ints))"
    using ok by (simp add: two_d_Polygon take2_ring take2_rings)
  show ?thesis
    using Polygon c t by (auto simp: two_d_Polygon not_3d_2d)
next
  case (MultiPolygon parts)
  note c = convert_MultiPolygon [OF assms [unfolded MultiPolygon], of sh]
  note k = two_d_kept [OF assms [unfolded MultiPolygon]]
  show ?thesis
    using MultiPolygon c k two_d_not_3d_parts [of parts]
    by (auto simp: Let_def split: if_splits)
qed simp_all

theorem convert_3d_to_2d_polygonal_witness:
  "list_all (\<lambda>c. 2 \<le> length c) (geometry_coords (Polygon square_z [hole_z])) \<and>
   convert_3d_to_2d accepting_shapely (Polygon square_z [hole_z])
     = Some (Polygon (map (take 2) square_z) [map (take 2) hole_z]) \<and>
   two_d (Polygon (map (take 2) square_z) [map (take 2) hole_z]) \<and>
   list_all (\<lambda>c. 2 \<le> length c)
     (geometry_coords (MultiPolygon [(bowtie_z, []), (square_z, [hole_z])])) \<and>
   convert_3d_to_2d bowtie_shapely (MultiPolygon [(bowtie_z, []), (square_z, [hole_z])])
     = Some (MultiPolygon [(map (take 2) square_z, [map (take 2) hole_z])]) \<and>
   convert_3d_to_2d accepting_shapely (Polygon (map (take 2) square_z) [map (take 2) hole_z])
     = Some (Polygon (map (take 2) square_z) [map (take 2) hole_z])"
proof -
  have h1: "list_all (\<lambda>c. 2 \<le> length c) (geometry_coords (Polygon square_z [hole_z]))"
    by (simp add: geometry_coords_def polygon_coords_def square_z_def hole_z_def)
  have h2: "list_all (\<lambda>c. 2 \<le> length c)
     (geometry_coords (MultiPolygon [(bowtie_z, []), (square_z, [hole_z])]))"
    by (simp add: geometry_coords_def polygon_coords_def square_z_def hole_z_def
        bowtie_z_def bowtie_def)
  have h3: "list_all (\<lambda>c. 2 \<le> length c)
     (geometry_coords (Polygon (map (take 2) square_z) [map (take 2) hole_z]))"
    by (simp add: geometry_coords_def polygon_coords_def square_z_def hole_z_def)
  have t: "two_d (Polygon (map (take 2) square_z) [map (take 2) hole_z])"
    by (simp add: two_d_def geometry_coords_def polygon_coords_def square_z_def hole_z_def)
  have v: "is_valid bowtie_shapely (Polygon (map (take 2) square_z) [map (take 2) hole_z])"
    "\<not> is_valid bowtie_shapely (Polygon (map (take 2) bowtie_z) [])"
    by (simp_all add: bowtie_shapely_def square_z_def hole_z_def bowtie_z_def bowtie_def)
  have d: "is_3d square_z" "is_3d bowtie_z"
    by (simp_all add: is_3d_def square_z_def bowtie_z_def bowtie_def)
  have l: "4 \<le> length square_z"
    by (simp add: square_z_def)
  show ?thesis
    using h1 h2 t
      convert_3d_to_2d_polygonal [OF h1, of accepting_shapely]
      convert_3d_to_2d_polygonal [OF h2, of bowtie_shapely]
      convert_3d_to_2d_polygonal [OF h3, of accepting_shapely]
    by (simp add: d v l poly_geom_def)
qed

section \<open>Properties of the upsert loop\<close>

lemma no_faults_sel:
  "json_dumps_raises no_faults = False" "select_raises no_faults = False"
  "spatial_write_raises no_faults = False" "plain_write_raises no_faults = False"
  by (simp_all add: no_faults_def)

lemma parse_numeric_Inr: "\<exists>v. parse_numeric pf x = Inr v"
  by (auto simp: parse_numeric_def split: sum.splits)

lemma parse_numeric_eq: "parse_numeric pf x = Inr (numeric_value pf x)"
  using parse_numeric_Inr [of pf x] by (auto simp: numeric_value_def)

lemma geometry_stage_eq:
  "geometry_stage sh st geom uid = Inr (count_geometry sh st geom uid, encoded_geometry sh geom uid)"
proof (cases geom)
  case None
  then show ?thesis by (simp add: geometry_stage_def count_geometry_def encoded_geometry_def)
next
  case (Some g)
  obtain w where w: "safe_geometry_to_wkb sh (Some g) uid = Inr w"
    using safe_geometry_to_wkb_returns [of uid "Some g" sh] by auto
  show ?thesis
    using Some w by (simp add: geometry_stage_def count_geometry_def encoded_geometry_def)
qed

lemma count_geometry_tables [simp]:
  "pending (count_geometry sh st geom uid) = pending st"
  "committed (count_geometry sh st geom uid) = committed st"
  by (simp_all add: count_geometry_def split: option.splits)

lemma track_tables [simp]:
  "pending (track_parcel_id st uid) = pending st"
  "committed (track_parcel_id st uid) = committed st"
  by (simp_all add: track_parcel_id_def split: option.splits)

lemma no_violation: "uid \<noteq> PyNone \<Longrightarrow> \<not> select_id tbl uid \<Longrightarrow> \<not> insert_violates tbl uid"
  by (simp add: select_id_def insert_violates_def sql_matches_def list_ex_iff)

lemma update_existing_ok:
  "update_existing no_faults st uid c w =
     Inr (st\<lparr>pending := sql_update (pending st) uid c w (w \<noteq> None),
             spatial_count := spatial_count st + (if w \<noteq> None then 1 else 0),
             non_spatial_count := non_spatial_count st + (if w \<noteq> None then 0 else 1),
             successful_parcel_ids := insert uid (successful_parcel_ids st)\<rparr>)"
  by (cases w) (simp_all add: update_existing_def no_faults_sel)

lemma insert_new_ok:
  "\<not> insert_violates (pending st) uid \<Longrightarrow>
   insert_new no_faults st uid p c w =
     Inr (st\<lparr>pending := sql_insert (pending st) uid p c w (w \<noteq> None),
             spatial_count := spatial_count st + (if w \<noteq> None then 1 else 0),
             non_spatial_count := non_spatial_count st + (if w \<noteq> None then 0 else 1),
             successful_parcel_ids := insert uid (successful_parcel_ids st)\<rparr>)"
  by (cases w) (simp_all add: insert_new_def no_faults_sel)

lemma process_row_no_faults:
  assumes "feature_uid row \<noteq> PyNone"
  shows "pending (process_row sh pf cn st (row, no_faults)) = upsert sh pf cn (pending st) row"
    and "committed (process_row sh pf cn st (row, no_faults)) = committed st"
proof -
  let ?uid = "feature_uid row"
  let ?st2 = "count_geometry sh (track_parcel_id st ?uid) (feat_geometry row) ?uid"
  have p: "pending ?st2 = pending st" by simp
  show "pending (process_row sh pf cn st (row, no_faults)) = upsert sh pf cn (pending st) row"
  proof (cases "select_id (pending st) ?uid")
    case True
    then show ?thesis
      by (simp add: process_row_def row_try_def parse_numeric_eq geometry_stage_eq Let_def
          update_existing_ok upsert_def written_columns_def written_geometry_def no_faults_sel)
  next
    case False
    then have "\<not> insert_violates (pending ?st2) ?uid"
      using assms no_violation by simp
    with False show ?thesis
      by (simp add: process_row_def row_try_def parse_numeric_eq geometry_stage_eq Let_def
          insert_new_ok upsert_def written_columns_def written_geometry_def no_faults_sel)
  qed
  show "committed (process_row sh pf cn st (row, no_faults)) = committed st"
  proof (cases "select_id (pending st) ?uid")
    case True
    then show ?thesis
      by (simp add: process_row_def row_try_def parse_numeric_eq geometry_stage_eq Let_def
          update_existing_ok no_faults_sel)
  next
    case False
    then have "\<not> insert_violates (pending ?st2) ?uid"
      using assms no_violation by simp
    with False show ?thesis
      by (simp add: process_row_def row_try_def parse_numeric_eq geometry_stage_eq Let_def
          insert_new_ok no_faults_sel)
  qed
qed


lemma foldl_no_faults:
  "clean_rows rows \<Longrightarrow>
   pending (foldl (process_row sh pf cn) st rows) = foldl (upsert sh pf cn) (pending st) (map fst rows) \<and>
   committed (foldl (process_row sh pf cn) st rows) = committed st"
proof (induction rows arbitrary: st)
  case Nil
  then show ?case by simp
next
  case (Cons rf rows)
  obtain row flt where rf: "rf = (row, flt)" by (cases rf)
  from Cons.prems rf have f: "flt = no_faults" and u: "feature_uid row \<noteq> PyNone" and r: "clean_rows rows"
    by (simp_all add: clean_rows_def)
  have "foldl (process_row sh pf cn) st (rf # rows)
      = foldl (process_row sh pf cn) (process_row sh pf cn st (row, no_faults)) rows"
    by (simp add: rf f)
  then show ?case
    using Cons.IH [OF r, of "process_row sh pf cn st (row, no_faults)"]
      process_row_no_faults [OF u, of sh pf cn st]
    by (simp add: rf)
qed

lemma clean_rows_take_drop:
  "clean_rows rows \<Longrightarrow> clean_rows (take n rows) \<and> clean_rows (drop n rows)"
  using list_all_append [of "\<lambda>rf. snd rf = no_faults \<and> feature_uid (fst rf) \<noteq> PyNone"
      "take n rows" "drop n rows"]
  by (simp add: clean_rows_def)

lemma foldl_take_drop: "foldl f (foldl f s (take n xs)) (drop n xs) = foldl f s xs"
  using foldl_append [of f s "take n xs" "drop n xs"] by simp

lemma update_batches_no_faults:
  "clean_rows rows \<Longrightarrow> (\<And>n. \<not> commit_raises n) \<Longrightarrow> pending st = committed st \<Longrightarrow>
   committed (update_batches sh pf cn commit_raises b st rows)
     = foldl (upsert sh pf cn) (committed st) (map fst rows) \<and>
   pending (update_batches sh pf cn commit_raises b st rows)
     = committed (update_batches sh pf cn commit_raises b st rows)"
proof (induction sh pf cn commit_raises b st rows rule: update_batches.induct)
  case (1 sh pf cn commit_raises b st rows)
  show ?case
  proof (cases "rows = []")
    case True
    then have "update_batches sh pf cn commit_raises b st rows = st"
      by (subst update_batches.simps) simp
    then show ?thesis using True "1.prems"(3) by simp
  next
    case False
    let ?st1 = "foldl (process_row sh pf cn) st (take batch_size rows)"
    let ?st2 = "commit_batch (commit_raises b) ?st1"
    have c: "clean_rows (take batch_size rows)" "clean_rows (drop batch_size rows)"
      using clean_rows_take_drop [OF "1.prems"(1), of batch_size] by simp_all
    have p1: "pending ?st1 = foldl (upsert sh pf cn) (committed st) (map fst (take batch_size rows))"
      using foldl_no_faults [OF c(1), of sh pf cn st] "1.prems"(3) by simp
    have st2: "committed ?st2 = pending ?st1" "pending ?st2 = pending ?st1"
      by (simp_all add: "1.prems"(2) commit_batch_def commit_def)
    have ih: "committed (update_batches sh pf cn commit_raises (b + 1) ?st2 (drop batch_size rows))
        = foldl (upsert sh pf cn) (committed ?st2) (map fst (drop batch_size rows)) \<and>
      pending (update_batches sh pf cn commit_raises (b + 1) ?st2 (drop batch_size rows))
        = committed (update_batches sh pf cn commit_raises (b + 1) ?st2 (drop batch_size rows))"
      using "1.IH" [OF False c(2) "1.prems"(2)] st2 by simp
    have step: "update_batches sh pf cn commit_raises b st rows
        = update_batches sh pf cn commit_raises (b + 1) ?st2 (drop batch_size rows)"
      using False by (subst update_batches.simps) simp
    have join: "foldl (upsert sh pf cn) (pending ?st1) (map fst (drop batch_size rows))
        = foldl (upsert sh pf cn) (committed st) (map fst rows)"
      unfolding p1 by (simp only: take_map [symmetric] drop_map [symmetric] foldl_take_drop)
    show ?thesis
      using ih unfolding step st2 join by simp
  qed
qed

lemma rows_for_update:
  "rows_for u (sql_update tbl uid c g h) =
     (if uid = u \<and> u \<noteq> PyNone
      then map (\<lambda>r. r\<lparr>cols := c, geometry_col := g, has_spatial_data := h\<rparr>) (rows_for u tbl)
      else rows_for u tbl)"
  by (induction tbl) (auto simp: rows_for_def sql_update_def sql_matches_def)

lemma rows_for_insert:
  "rows_for u (sql_insert tbl uid p c g h) =
     rows_for u tbl @
       (if uid = u
        then [\<lparr>global_parcel_uid = uid, county_parcel_id_num = p, cols = c,
               geometry_col = g, has_spatial_data = h\<rparr>]
        else [])"
  by (simp add: rows_for_def sql_insert_def)

lemma select_id_rows_for: "uid \<noteq> PyNone \<Longrightarrow> select_id tbl uid = (rows_for uid tbl \<noteq> [])"
  by (auto simp: select_id_def rows_for_def sql_matches_def list_ex_iff filter_empty_conv)

lemma select_id_None: "select_id tbl PyNone = False"
  by (simp add: select_id_def sql_matches_def list_ex_iff)

lemma rows_for_upsert_other:
  "feature_uid row \<noteq> u \<Longrightarrow> rows_for u (upsert sh pf cn tbl row) = rows_for u tbl"
  by (simp add: upsert_def Let_def rows_for_update rows_for_insert)

lemma rows_for_upsert_same:
  assumes "feature_uid row = u" "u \<noteq> PyNone" "length (rows_for u tbl) \<le> 1"
  shows "\<exists>r. rows_for u (upsert sh pf cn tbl row) = [r] \<and> written_by sh pf cn row r"
proof (cases "rows_for u tbl")
  case Nil
  then show ?thesis
    using assms
    by (simp add: upsert_def Let_def select_id_rows_for rows_for_insert written_by_def)
next
  case (Cons r rs)
  with assms(3) have "rs = []" by simp
  with Cons show ?thesis
    using assms
    by (simp add: upsert_def Let_def select_id_rows_for rows_for_update written_by_def)
qed

lemma foldl_upsert_uid:
  assumes "u \<noteq> PyNone" "length (rows_for u tbl) \<le> 1"
  shows "length (rows_for u (foldl (upsert sh pf cn) tbl fs)) \<le> 1 \<and>
         (filter (\<lambda>row. feature_uid row = u) fs \<noteq> [] \<longrightarrow>
            (\<exists>r. rows_for u (foldl (upsert sh pf cn) tbl fs) = [r] \<and>
                 written_by sh pf cn (last (filter (\<lambda>row. feature_uid row = u) fs)) r))"
proof (induction fs rule: rev_induct)
  case Nil
  then show ?case using assms by simp
next
  case (snoc x xs)
  let ?t = "foldl (upsert sh pf cn) tbl xs"
  from snoc have le: "length (rows_for u ?t) \<le> 1" by simp
  show ?case
  proof (cases "feature_uid x = u")
    case True
    from rows_for_upsert_same [OF True assms(1) le, of sh pf cn]
    obtain r where "rows_for u (upsert sh pf cn ?t x) = [r]" "written_by sh pf cn x r" by blast
    then show ?thesis using True by simp
  next
    case False
    then show ?thesis
      using snoc by (simp add: rows_for_upsert_other)
  qed
qed

lemma update_existing_tracking:
  "update_existing flt st uid c w = Inl s \<or> update_existing flt st uid c w = Inr s \<Longrightarrow>
   parcel_id_count s = parcel_id_count st \<and> duplicate_parcel_ids s = duplicate_parcel_ids st"
  by (auto simp: update_existing_def Let_def split: if_splits)

lemma insert_new_tracking:
  "insert_new flt st uid p c w = Inl s \<or> insert_new flt st uid p c w = Inr s \<Longrightarrow>
   parcel_id_count s = parcel_id_count st \<and> duplicate_parcel_ids s = duplicate_parcel_ids st"
  by (auto simp: insert_new_def Let_def split: if_splits)

lemma count_geometry_tracking:
  "parcel_id_count (count_geometry sh st geom uid) = parcel_id_count st"
  "duplicate_parcel_ids (count_geometry sh st geom uid) = duplicate_parcel_ids st"
  by (simp_all add: count_geometry_def split: option.splits)

lemma row_try_tracking:
  assumes "row_try sh pf cn st row flt = Inl s \<or> row_try sh pf cn st row flt = Inr s"
  shows "parcel_id_count s = parcel_id_count (track_parcel_id st (feature_uid row)) \<and>
         duplicate_parcel_ids s = duplicate_parcel_ids (track_parcel_id st (feature_uid row))"
proof -
  let ?uid = "feature_uid row"
  let ?st1 = "track_parcel_id st ?uid"
  let ?st2 = "count_geometry sh ?st1 (feat_geometry row) ?uid"
  let ?c = "row_columns cn row (numeric_value pf (row_get row ''acreage'' (PyStr '''')))
              (numeric_value pf (row_get row ''property_value'' (PyStr '''')))"
  let ?w = "encoded_geometry sh (feat_geometry row) ?uid"
  have eq: "row_try sh pf cn st row flt =
      (if json_dumps_raises flt then Inl ?st1
       else if select_raises flt then Inl ?st1
       else if select_id (pending ?st2) ?uid then update_existing flt ?st2 ?uid ?c ?w
       else insert_new flt ?st2 ?uid (feature_parcel_id row) ?c ?w)"
    by (simp add: row_try_def parse_numeric_eq geometry_stage_eq Let_def)
  show ?thesis
  proof (cases "json_dumps_raises flt \<or> select_raises flt")
    case True
    with eq have "row_try sh pf cn st row flt = Inl ?st1" by auto
    with assms have "s = ?st1" by auto
    then show ?thesis by simp
  next
    case False
    show ?thesis
    proof (cases "select_id (pending ?st2) ?uid")
      case True
      with False assms eq
      have "update_existing flt ?st2 ?uid ?c ?w = Inl s \<or> update_existing flt ?st2 ?uid ?c ?w = Inr s"
        by simp
      from update_existing_tracking [OF this] show ?thesis
        by (simp add: count_geometry_tracking)
    next
      case no: False
      with False assms eq
      have "insert_new flt ?st2 ?uid (feature_parcel_id row) ?c ?w = Inl s
          \<or> insert_new flt ?st2 ?uid (feature_parcel_id row) ?c ?w = Inr s"
        by simp
      from insert_new_tracking [OF this] show ?thesis
        by (simp add: count_geometry_tracking)
    qed
  qed
qed

lemma process_row_tracking:
  "parcel_id_count (process_row sh pf cn st rf)
     = parcel_id_count (track_parcel_id st (feature_uid (fst rf))) \<and>
   duplicate_parcel_ids (process_row sh pf cn st rf)
     = duplicate_parcel_ids (track_parcel_id st (feature_uid (fst rf)))"
proof (cases "row_try sh pf cn st (fst rf) (snd rf)")
  case (Inl s)
  with row_try_tracking [of sh pf cn st "fst rf" "snd rf" s] show ?thesis
    by (simp add: process_row_def rollback_def)
next
  case (Inr s)
  with row_try_tracking [of sh pf cn st "fst rf" "snd rf" s] show ?thesis
    by (simp add: process_row_def)
qed

lemma seen_track:
  "u \<noteq> PyNone \<Longrightarrow> seen u n st \<Longrightarrow>
   seen u (n + (if uid = u then 1 else 0)) (track_parcel_id st uid)"
  by (auto simp: seen_def track_parcel_id_def split: option.splits if_splits)

lemma seen_cong:
  "parcel_id_count s = parcel_id_count t \<Longrightarrow> duplicate_parcel_ids s = duplicate_parcel_ids t \<Longrightarrow>
   seen u n s = seen u n t"
  by (simp add: seen_def)

lemma seen_process_row:
  "u \<noteq> PyNone \<Longrightarrow> seen u n st \<Longrightarrow>
   seen u (n + (if feature_uid (fst rf) = u then 1 else 0)) (process_row sh pf cn st rf)"
  using seen_track [of u n st "feature_uid (fst rf)"] process_row_tracking [of sh pf cn st rf]
    seen_cong [of "process_row sh pf cn st rf" "track_parcel_id st (feature_uid (fst rf))" u]
  by simp

lemma seen_foldl:
  "u \<noteq> PyNone \<Longrightarrow> seen u n st \<Longrightarrow>
   seen u (n + length (features_for u rows)) (foldl (process_row sh pf cn) st rows)"
proof (induction rows arbitrary: st n)
  case Nil
  then show ?case by (simp add: features_for_def)
next
  case (Cons rf rows)
  from seen_process_row [OF Cons.prems, of rf sh pf cn]
  have s: "seen u (n + (if feature_uid (fst rf) = u then 1 else 0)) (process_row sh pf cn st rf)" .
  from Cons.IH [OF Cons.prems(1) s] show ?case
    by (cases "feature_uid (fst rf) = u") (simp_all add: features_for_def add.assoc)
qed

lemma seen_commit_batch: "seen u n (commit_batch b st) = seen u n st"
  by (simp add: seen_def commit_batch_def commit_def rollback_def)

lemma features_for_take_drop:
  "length (features_for u (take k rows)) + length (features_for u (drop k rows))
     = length (features_for u rows)"
proof -
  have "features_for u rows = features_for u (take k rows) @ features_for u (drop k rows)"
    unfolding features_for_def filter_append [symmetric] map_append [symmetric] by simp
  then show ?thesis by simp
qed

lemma seen_update_batches:
  "u \<noteq> PyNone \<Longrightarrow> seen u n st \<Longrightarrow>
   seen u (n + length (features_for u rows)) (update_batches sh pf cn commit_raises b st rows)"
proof (induction sh pf cn commit_raises b st rows arbitrary: n rule: update_batches.induct)
  case (1 sh pf cn commit_raises b st rows)
  show ?case
  proof (cases "rows = []")
    case True
    then have "update_batches sh pf cn commit_raises b st rows = st"
      by (subst update_batches.simps) simp
    then show ?thesis using True "1.prems"(2) by (simp add: features_for_def)
  next
    case False
    let ?st1 = "foldl (process_row sh pf cn) st (take batch_size rows)"
    let ?st2 = "commit_batch (commit_raises b) ?st1"
    have s2: "seen u (n + length (features_for u (take batch_size rows))) ?st2"
      using seen_foldl [OF "1.prems", of "take batch_size rows" sh pf cn]
      by (simp add: seen_commit_batch)
    have step: "update_batches sh pf cn commit_raises b st rows
        = update_batches sh pf cn commit_raises (b + 1) ?st2 (drop batch_size rows)"
      using False by (subst update_batches.simps) simp
    show ?thesis
      using "1.IH" [OF False "1.prems"(1) s2] features_for_take_drop [of u batch_size rows]
      unfolding step by (simp add: add.assoc)
  qed
qed

lemma seen_initial: "seen u 0 (initial_state table)"
  by (simp add: seen_def initial_state_def)

lemma update_parcel_data_no_faults:
  assumes "clean_rows rows" "\<And>n. \<not> commit_raises n"
  shows "committed (update_parcel_data sh pf cn commit_raises table rows)
           = foldl (upsert sh pf cn) table (map fst rows)"
  using update_batches_no_faults [OF assms, where st = "initial_state table" and sh = sh
      and pf = pf and cn = cn and b = 0]
  by (simp add: update_parcel_data_def rollback_def initial_state_def)

lemma update_parcel_data_seen:
  "u \<noteq> PyNone \<Longrightarrow>
   seen u (length (features_for u rows)) (update_parcel_data sh pf cn commit_raises table rows)"
  using seen_update_batches [where u = u and n = 0 and st = "initial_state table" and rows = rows
      and sh = sh and pf = pf and cn = cn and commit_raises = commit_raises and b = 0]
    seen_initial [of u table]
  by (simp add: update_parcel_data_def rollback_def seen_def)

lemma uid_sample: "feature_uid (sample_feature u p ownr g i) = PyStr u"
  by (simp add: feature_uid_def row_get_def sample_feature_def)

text \<open>
  C2, as stated, fails: of two features that share an identifier and differ in
  \<open>county_parcel_id_num\<close>, the one persisted row keeps the \<open>county_parcel_id_num\<close> of
  the first, since the UPDATE statement does not write this column.
\<close>

theorem duplicate_uid_keeps_first_parcel_id:
  "map (\<lambda>r. (global_parcel_uid r, county_parcel_id_num r, owner_name (cols r)))
     (committed (update_parcel_data accepting_shapely sample_float PyNone (\<lambda>n. False) []
        [(sample_feature ''A'' ''1'' ''first'' None 0, no_faults),
         (sample_feature ''A'' ''2'' ''second'' None 7, no_faults)]))
   = [(PyStr ''A'', PyStr ''1'', PyStr ''second'')]"
proof -
  let ?rows = "[(sample_feature ''A'' ''1'' ''first'' None 0, no_faults),
         (sample_feature ''A'' ''2'' ''second'' None 7, no_faults)]"
  have h1: "clean_rows ?rows" by (simp add: clean_rows_def uid_sample)
  have c: "committed (update_parcel_data accepting_shapely sample_float PyNone (\<lambda>n. False) [] ?rows)
      = foldl (upsert accepting_shapely sample_float PyNone) [] (map fst ?rows)"
    by (rule update_parcel_data_no_faults [OF h1]) simp
  have p: "feature_parcel_id (sample_feature ''A'' ''1'' ''first'' None 0) = PyStr ''1''"
    by (simp add: feature_parcel_id_def row_get_def sample_feature_def)
  have o: "owner_name (written_columns sample_float PyNone
      (sample_feature ''A'' ''2'' ''second'' None 7)) = PyStr ''second''"
    by (simp add: written_columns_def row_columns_def row_get_def sample_feature_def)
  show ?thesis
    unfolding c
    by (simp add: upsert_def Let_def uid_sample select_id_def sql_matches_def sql_insert_def
        sql_update_def p o)
qed

text \<open>
  C2, amended. Let no statement and no commit raise during the run, and let every feature
  have an identifier that is not null. For an identifier that two or more features of
  the input share, and for which the table held at most one row before, the persisted
  table holds exactly one row afterwards; the columns that the UPDATE statement writes
  (every attribute column but \<open>county_parcel_id_num\<close>), the geometry and
  \<open>has_spatial_data\<close> of this row are those of the last feature with the identifier; and
  the identifier is in the set of duplicates that the report prints, with the number of
  its features as its count.
\<close>

theorem duplicate_uid_last_write_wins:
  assumes "clean_rows rows"
    and "\<forall>n. \<not> commit_raises n"
    and "uid \<noteq> PyNone"
    and "2 \<le> length (features_for uid rows)"
    and "length (rows_for uid table) \<le> 1"
  shows "(\<exists>r. rows_for uid (committed (update_parcel_data sh pf cn commit_raises table rows)) = [r] \<and>
            cols r = written_columns pf cn (last (features_for uid rows)) \<and>
            geometry_col r = written_geometry sh (last (features_for uid rows)) \<and>
            has_spatial_data r = (written_geometry sh (last (features_for uid rows)) \<noteq> None)) \<and>
         uid \<in> duplicate_parcel_ids (update_parcel_data sh pf cn commit_raises table rows) \<and>
         parcel_id_count (update_parcel_data sh pf cn commit_raises table rows) uid
           = Some (length (features_for uid rows))"
proof -
  let ?final = "update_parcel_data sh pf cn commit_raises table rows"
  have c: "committed ?final = foldl (upsert sh pf cn) table (map fst rows)"
    using update_parcel_data_no_faults [OF assms(1), of commit_raises sh pf cn table] assms(2)
    by simp
  have fne: "features_for uid rows \<noteq> []"
    using assms(4) by auto
  then have ne: "filter (\<lambda>row. feature_uid row = uid) (map fst rows) \<noteq> []"
    unfolding features_for_def .
  from foldl_upsert_uid [OF assms(3) assms(5), of sh pf cn "map fst rows"] ne
  obtain r where r: "rows_for uid (foldl (upsert sh pf cn) table (map fst rows)) = [r]"
    "written_by sh pf cn (last (filter (\<lambda>row. feature_uid row = uid) (map fst rows))) r"
    by blast
  have one: "\<exists>r. rows_for uid (committed ?final) = [r] \<and>
            cols r = written_columns pf cn (last (features_for uid rows)) \<and>
            geometry_col r = written_geometry sh (last (features_for uid rows)) \<and>
            has_spatial_data r = (written_geometry sh (last (features_for uid rows)) \<noteq> None)"
    using r unfolding c written_by_def features_for_def by blast
  have s: "seen uid (length (features_for uid rows)) ?final"
    by (rule update_parcel_data_seen [OF assms(3)])
  have d: "uid \<in> duplicate_parcel_ids ?final"
    and n: "parcel_id_count ?final uid = Some (length (features_for uid rows))"
    using s assms(4) fne by (simp_all add: seen_def)
  show ?thesis using one d n by blast
qed

theorem duplicate_uid_last_write_wins_witness:
  "clean_rows
     [(sample_feature ''A'' ''1'' ''first'' None 0, no_faults),
      (sample_feature ''A'' ''2'' ''second'' (Some (Point [Fin 1, Fin 2])) 7, no_faults)] \<and>
   length (features_for (PyStr ''A'')
     [(sample_feature ''A'' ''1'' ''first'' None 0, no_faults),
      (sample_feature ''A'' ''2'' ''second'' (Some (Point [Fin 1, Fin 2])) 7, no_faults)]) = 2 \<and>
   (\<exists>r. rows_for (PyStr ''A'')
          (committed (update_parcel_data accepting_shapely sample_float PyNone (\<lambda>n. False) []
             [(sample_feature ''A'' ''1'' ''first'' None 0, no_faults),
              (sample_feature ''A'' ''2'' ''second'' (Some (Point [Fin 1, Fin 2])) 7, no_faults)]))
          = [r] \<and>
        owner_name (cols r) = PyStr ''second'' \<and> has_spatial_data r) \<and>
   PyStr ''A'' \<in> duplicate_parcel_ids
     (update_parcel_data accepting_shapely sample_float PyNone (\<lambda>n. False) []
        [(sample_feature ''A'' ''1'' ''first'' None 0, no_faults),
         (sample_feature ''A'' ''2'' ''second'' (Some (Point [Fin 1, Fin 2])) 7, no_faults)])"
proof -
  let ?rows = "[(sample_feature ''A'' ''1'' ''first'' None 0, no_faults),
      (sample_feature ''A'' ''2'' ''second'' (Some (Point [Fin 1, Fin 2])) 7, no_faults)]"
  have h1: "clean_rows ?rows" by (simp add: clean_rows_def uid_sample)
  have h2: "\<forall>n. \<not> (\<lambda>n. False) n" by simp
  have h3: "PyStr ''A'' \<noteq> PyNone" by simp
  have f: "features_for (PyStr ''A'') ?rows
      = [sample_feature ''A'' ''1'' ''first'' None 0,
         sample_feature ''A'' ''2'' ''second'' (Some (Point [Fin 1, Fin 2])) 7]"
    by (simp add: features_for_def uid_sample)
  have h4: "2 \<le> length (features_for (PyStr ''A'') ?rows)" by (simp add: f)
  have h5: "length (rows_for (PyStr ''A'') []) \<le> 1" by (simp add: rows_for_def)
  have w: "written_geometry accepting_shapely
      (sample_feature ''A'' ''2'' ''second'' (Some (Point [Fin 1, Fin 2])) 7) = Some []"
    by (simp add: written_geometry_def encoded_geometry_def uid_sample safe_geometry_to_wkb_def
        repair_step_def validate_and_clean_coordinates_def convert_3d_to_2d_def
        convert_3d_to_2d_try_def accepting_shapely_def sample_feature_def)
  have o: "owner_name (written_columns sample_float PyNone
      (sample_feature ''A'' ''2'' ''second'' (Some (Point [Fin 1, Fin 2])) 7)) = PyStr ''second''"
    by (simp add: written_columns_def row_columns_def row_get_def sample_feature_def)
  show ?thesis
    using duplicate_uid_last_write_wins [OF h1 h2 h3 h4 h5, of accepting_shapely sample_float PyNone]
      h1 f w o
    by auto
qed

subsection \<open>A record that raises\<close>


lemma str_nat_nonempty: "str_nat n \<noteq> []"
  by (subst str_nat.simps) simp

lemma digit_inj: "a < 10 \<Longrightarrow> b < 10 \<Longrightarrow> char_of (48 + a :: nat) = char_of (48 + b) \<Longrightarrow> a = b"
proof -
  assume a: "a < 10" and b: "b < 10" and e: "char_of (48 + a :: nat) = char_of (48 + b)"
  have "of_char (char_of (48 + a :: nat)) = (of_char (char_of (48 + b)) :: nat)"
    using e by simp
  then have "(48 + a) mod 256 = (48 + b) mod 256"
    by (simp only: of_char_of)
  then show "a = b" using a b by simp
qed

lemma str_nat_inj: "str_nat m = str_nat n \<Longrightarrow> m = n"
proof (induction m arbitrary: n rule: str_nat.induct)
  case (1 m)
  show ?case
  proof (cases "m < 10")
    case True
    show ?thesis
    proof (cases "n < 10")
      case n: True
      from "1.prems" True n have "char_of (48 + m) = char_of (48 + n)"
        by (subst (asm) (1 2) str_nat.simps) simp
      with True n show ?thesis using digit_inj [of m n] by simp
    next
      case False
      from "1.prems" True False have "[char_of (48 + m)] = str_nat (n div 10) @ [char_of (48 + n mod 10)]"
        by (subst (asm) (1 2) str_nat.simps) simp
      then have "str_nat (n div 10) = []" by simp
      then show ?thesis using str_nat_nonempty by blast
    qed
  next
    case False
    show ?thesis
    proof (cases "n < 10")
      case True
      from "1.prems" True False have "str_nat (m div 10) @ [char_of (48 + m mod 10)] = [char_of (48 + n)]"
        by (subst (asm) (1 2) str_nat.simps) simp
      then have "str_nat (m div 10) = []" by simp
      then show ?thesis using str_nat_nonempty by blast
    next
      case n: False
      from "1.prems" False n
      have "str_nat (m div 10) @ [char_of (48 + m mod 10)] = str_nat (n div 10) @ [char_of (48 + n mod 10)]"
        by (subst (asm) (1 2) str_nat.simps) simp
      then have e: "str_nat (m div 10) = str_nat (n div 10)"
        and d: "char_of (48 + m mod 10) = char_of (48 + n mod 10)"
        by simp_all
      from "1.IH" [OF False e] have q: "m div 10 = n div 10" .
      have r: "m mod 10 = n mod 10"
        by (rule digit_inj [OF _ _ d]) simp_all
      have "m = 10 * (m div 10) + m mod 10" "n = 10 * (n div 10) + n mod 10"
        by simp_all
      with q r show ?thesis by simp
    qed
  qed
qed


lemma row_try_eq:
  "row_try sh pf cn st row flt =
     (if json_dumps_raises flt then Inl (track_parcel_id st (feature_uid row))
      else if select_raises flt then Inl (track_parcel_id st (feature_uid row))
      else if select_id (pending st) (feature_uid row)
      then update_existing flt
             (count_geometry sh (track_parcel_id st (feature_uid row)) (feat_geometry row)
                (feature_uid row))
             (feature_uid row) (written_columns pf cn row) (written_geometry sh row)
      else insert_new flt
             (count_geometry sh (track_parcel_id st (feature_uid row)) (feat_geometry row)
                (feature_uid row))
             (feature_uid row) (feature_parcel_id row) (written_columns pf cn row)
             (written_geometry sh row))"
  by (simp add: row_try_def parse_numeric_eq geometry_stage_eq Let_def written_columns_def
      written_geometry_def)

lemma update_existing_committed:
  "update_existing flt st uid c w = Inl s \<or> update_existing flt st uid c w = Inr s \<Longrightarrow>
   committed s = committed st \<and> successful_parcel_ids st \<subseteq> successful_parcel_ids s \<and>
   failed_parcel_ids st \<subseteq> failed_parcel_ids s"
  by (auto simp: update_existing_def Let_def split: if_splits)

lemma insert_new_committed:
  "insert_new flt st uid p c w = Inl s \<or> insert_new flt st uid p c w = Inr s \<Longrightarrow>
   committed s = committed st \<and> successful_parcel_ids st \<subseteq> successful_parcel_ids s \<and>
   failed_parcel_ids st \<subseteq> failed_parcel_ids s"
  by (auto simp: insert_new_def Let_def split: if_splits)

lemma stage_fields:
  "committed (count_geometry sh (track_parcel_id st u) g u) = committed st"
  "successful_parcel_ids (count_geometry sh (track_parcel_id st u) g u) = successful_parcel_ids st"
  "successful_parcel_ids (track_parcel_id st u) = successful_parcel_ids st"
  "failed_parcel_ids (count_geometry sh (track_parcel_id st u) g u) = failed_parcel_ids st"
  "failed_parcel_ids (track_parcel_id st u) = failed_parcel_ids st"
  by (simp_all add: count_geometry_def track_parcel_id_def split: option.splits)

lemma row_try_committed:
  assumes "row_try sh pf cn st row flt = Inl s \<or> row_try sh pf cn st row flt = Inr s"
  shows "committed s = committed st \<and> successful_parcel_ids st \<subseteq> successful_parcel_ids s \<and>
         failed_parcel_ids st \<subseteq> failed_parcel_ids s"
proof -
  let ?uid = "feature_uid row"
  let ?st1 = "track_parcel_id st ?uid"
  let ?st2 = "count_geometry sh ?st1 (feat_geometry row) ?uid"
  note eq = row_try_eq [of sh pf cn st row flt]
  show ?thesis
  proof (cases "json_dumps_raises flt \<or> select_raises flt")
    case True
    with eq have "row_try sh pf cn st row flt = Inl ?st1" by auto
    with assms have "s = ?st1" by auto
    then show ?thesis by (simp add: stage_fields)
  next
    case False
    show ?thesis
    proof (cases "select_id (pending st) ?uid")
      case True
      with False assms eq
      have "update_existing flt ?st2 ?uid (written_columns pf cn row) (written_geometry sh row) = Inl s
        \<or> update_existing flt ?st2 ?uid (written_columns pf cn row) (written_geometry sh row) = Inr s"
        by simp
      from update_existing_committed [OF this] show ?thesis
        by (simp add: stage_fields)
    next
      case no: False
      with False assms eq
      have "insert_new flt ?st2 ?uid (feature_parcel_id row) (written_columns pf cn row)
              (written_geometry sh row) = Inl s
          \<or> insert_new flt ?st2 ?uid (feature_parcel_id row) (written_columns pf cn row)
              (written_geometry sh row) = Inr s"
        by simp
      from insert_new_committed [OF this] show ?thesis
        by (simp add: stage_fields)
    qed
  qed
qed

lemma process_row_committed:
  "committed (process_row sh pf cn st rf) = committed st \<and>
   successful_parcel_ids st \<subseteq> successful_parcel_ids (process_row sh pf cn st rf) \<and>
   failed_parcel_ids st \<subseteq> failed_parcel_ids (process_row sh pf cn st rf)"
proof (cases "row_try sh pf cn st (fst rf) (snd rf)")
  case (Inl s)
  with row_try_committed [of sh pf cn st "fst rf" "snd rf" s] show ?thesis
    by (auto simp: process_row_def rollback_def)
next
  case (Inr s)
  with row_try_committed [of sh pf cn st "fst rf" "snd rf" s] show ?thesis
    by (simp add: process_row_def)
qed

lemma row_try_write_raises:
  assumes "plain_write_raises flt" "feat_geometry row = None"
  shows "\<exists>s. row_try sh pf cn st row flt = Inl s"
proof -
  have w: "written_geometry sh row = None"
    using assms(2) by (simp add: written_geometry_def encoded_geometry_def)
  show ?thesis
    unfolding row_try_eq w using assms(1)
    by (simp add: update_existing_def insert_new_def)
qed

lemma process_row_write_raises:
  assumes "plain_write_raises flt" "feat_geometry row = None"
  shows "pending (process_row sh pf cn st (row, flt)) = committed st \<and>
         committed (process_row sh pf cn st (row, flt)) = committed st \<and>
         feature_uid row \<in> failed_parcel_ids (process_row sh pf cn st (row, flt))"
proof -
  from row_try_write_raises [OF assms, of sh pf cn st]
  obtain s where s: "row_try sh pf cn st row flt = Inl s" by blast
  with row_try_committed [of sh pf cn st row flt s] have "committed s = committed st" by simp
  with s show ?thesis
    by (simp add: process_row_def rollback_def)
qed

lemma process_row_clean_successful:
  assumes "feature_uid row \<noteq> PyNone"
  shows "feature_uid row \<in> successful_parcel_ids (process_row sh pf cn st (row, no_faults))"
proof (cases "select_id (pending st) (feature_uid row)")
  case True
  then show ?thesis
    by (simp add: process_row_def row_try_eq update_existing_ok no_faults_sel)
next
  case False
  then have "\<not> insert_violates (pending (count_geometry sh (track_parcel_id st (feature_uid row))
      (feat_geometry row) (feature_uid row))) (feature_uid row)"
    using assms no_violation by simp
  with False show ?thesis
    by (simp add: process_row_def row_try_eq insert_new_ok no_faults_sel)
qed

lemma foldl_successful_mono:
  "successful_parcel_ids st \<subseteq> successful_parcel_ids (foldl (process_row sh pf cn) st rows) \<and>
   failed_parcel_ids st \<subseteq> failed_parcel_ids (foldl (process_row sh pf cn) st rows) \<and>
   committed (foldl (process_row sh pf cn) st rows) = committed st"
proof (induction rows arbitrary: st)
  case Nil
  then show ?case by simp
next
  case (Cons rf rows)
  from Cons [of "process_row sh pf cn st rf"] process_row_committed [of sh pf cn st rf]
  show ?case by auto
qed


lemma commit_batch_sets:
  "successful_parcel_ids (commit_batch b st) = successful_parcel_ids st"
  "failed_parcel_ids (commit_batch b st) = failed_parcel_ids st"
  by (simp_all add: commit_batch_def commit_def rollback_def)

lemma update_batches_mono:
  "successful_parcel_ids st \<subseteq> successful_parcel_ids (update_batches sh pf cn commit_raises b st rows) \<and>
   failed_parcel_ids st \<subseteq> failed_parcel_ids (update_batches sh pf cn commit_raises b st rows)"
proof (induction sh pf cn commit_raises b st rows rule: update_batches.induct)
  case (1 sh pf cn commit_raises b st rows)
  show ?case
  proof (cases "rows = []")
    case True
    then have "update_batches sh pf cn commit_raises b st rows = st"
      by (subst update_batches.simps) simp
    then show ?thesis by simp
  next
    case False
    let ?st1 = "foldl (process_row sh pf cn) st (take batch_size rows)"
    let ?st2 = "commit_batch (commit_raises b) ?st1"
    have step: "update_batches sh pf cn commit_raises b st rows
        = update_batches sh pf cn commit_raises (b + 1) ?st2 (drop batch_size rows)"
      using False by (subst update_batches.simps) simp
    show ?thesis
      using "1.IH" [OF False] foldl_successful_mono [of st sh pf cn "take batch_size rows"]
      unfolding step by (auto simp: commit_batch_sets)
  qed
qed

lemma uid_numbered: "feature_uid (numbered_feature i) = PyStr (str_nat i)"
  by (simp add: feature_uid_def row_get_def numbered_feature_def)

lemma foldl_upsert_fresh:
  "distinct (map global_parcel_uid tbl @ map feature_uid fs) \<Longrightarrow>
   PyNone \<notin> set (map feature_uid fs) \<Longrightarrow>
   map global_parcel_uid (foldl (upsert sh pf cn) tbl fs)
     = map global_parcel_uid tbl @ map feature_uid fs"
proof (induction fs arbitrary: tbl)
  case Nil
  then show ?case by simp
next
  case (Cons f fs)
  have "feature_uid f \<notin> set (map global_parcel_uid tbl)"
    using Cons.prems(1) by auto
  then have "\<not> select_id tbl (feature_uid f)"
    by (auto simp: select_id_def sql_matches_def list_ex_iff image_iff)
  then have u: "map global_parcel_uid (upsert sh pf cn tbl f)
      = map global_parcel_uid tbl @ [feature_uid f]"
    by (simp add: upsert_def Let_def sql_insert_def)
  have d: "distinct (map global_parcel_uid (upsert sh pf cn tbl f) @ map feature_uid fs)"
    using Cons.prems(1) unfolding u by auto
  from Cons.IH [OF d] Cons.prems(2) show ?case
    unfolding u by simp
qed

lemma clean_segment:
  "k \<notin> set [a..<b] \<Longrightarrow> clean_rows (map (scenario_row k) [a..<b])"
  by (auto simp: clean_rows_def list_all_iff scenario_row_def uid_numbered)

lemma fst_segment:
  "map fst (map (scenario_row k) xs) = map numbered_feature xs"
  "map (fst \<circ> scenario_row k) xs = map numbered_feature xs"
  by (simp_all add: scenario_row_def comp_def)

lemma upt_split: "a \<le> k \<Longrightarrow> k < b \<Longrightarrow> [a..<b] = [a..<k] @ k # [Suc k..<b]"
  using upt_add_eq_append [of a k "b - k"] by (simp add: upt_conv_Cons)

lemma batch_with_failure:
  assumes "a \<le> k" "k < b" "pending st = committed st"
  shows "pending (foldl (process_row sh pf cn) st (map (scenario_row k) [a..<b]))
           = foldl (upsert sh pf cn) (committed st) (map numbered_feature [Suc k..<b]) \<and>
         committed (foldl (process_row sh pf cn) st (map (scenario_row k) [a..<b])) = committed st"
proof -
  let ?pr = "process_row sh pf cn"
  let ?s1 = "foldl ?pr st (map (scenario_row k) [a..<k])"
  let ?s2 = "?pr ?s1 (scenario_row k k)"
  have c1: "committed ?s1 = committed st"
    using foldl_successful_mono [of st sh pf cn "map (scenario_row k) [a..<k]"] by simp
  have f: "scenario_row k k = (numbered_feature k, write_fault)"
    by (simp add: scenario_row_def)
  have wf: "plain_write_raises write_fault" "feat_geometry (numbered_feature k) = None"
    by (simp_all add: write_fault_def numbered_feature_def)
  have s2: "pending ?s2 = committed st" "committed ?s2 = committed st"
    using process_row_write_raises [OF wf, of sh pf cn ?s1] c1
    by (simp_all add: f)
  have cl: "clean_rows (map (scenario_row k) [Suc k..<b])"
    by (rule clean_segment) simp
  have split: "foldl ?pr st (map (scenario_row k) [a..<b])
      = foldl ?pr ?s2 (map (scenario_row k) [Suc k..<b])"
    by (simp add: upt_split [OF assms(1,2)])
  show ?thesis
    unfolding split
    using foldl_no_faults [OF cl, of sh pf cn ?s2] s2 by (simp add: fst_segment)
qed


lemma batch_with_failure_sets:
  assumes "a < k" "k < b"
  shows "PyStr (str_nat a)
           \<in> successful_parcel_ids (foldl (process_row sh pf cn) st (map (scenario_row k) [a..<b])) \<and>
         PyStr (str_nat k)
           \<in> failed_parcel_ids (foldl (process_row sh pf cn) st (map (scenario_row k) [a..<b]))"
proof -
  let ?pr = "process_row sh pf cn"
  let ?s0 = "?pr st (scenario_row k a)"
  let ?s1 = "foldl ?pr ?s0 (map (scenario_row k) [Suc a..<k])"
  let ?s2 = "?pr ?s1 (scenario_row k k)"
  let ?s3 = "foldl ?pr ?s2 (map (scenario_row k) [Suc k..<b])"
  have ab: "[a..<b] = a # [Suc a..<k] @ k # [Suc k..<b]"
    using assms upt_split [of a k b] by (simp add: upt_conv_Cons)
  have split: "foldl ?pr st (map (scenario_row k) [a..<b]) = ?s3"
    unfolding ab by simp
  have ra: "scenario_row k a = (numbered_feature a, no_faults)"
    using assms(1) by (simp add: scenario_row_def)
  have rk: "scenario_row k k = (numbered_feature k, write_fault)"
    by (simp add: scenario_row_def)
  have "PyStr (str_nat a) \<in> successful_parcel_ids ?s0"
    using process_row_clean_successful [of "numbered_feature a" sh pf cn st]
    by (simp add: ra uid_numbered)
  then have "PyStr (str_nat a) \<in> successful_parcel_ids ?s1"
    using foldl_successful_mono [of ?s0 sh pf cn "map (scenario_row k) [Suc a..<k]"] by blast
  then have "PyStr (str_nat a) \<in> successful_parcel_ids ?s2"
    using process_row_committed [of sh pf cn ?s1 "scenario_row k k"] by blast
  then have s: "PyStr (str_nat a) \<in> successful_parcel_ids ?s3"
    using foldl_successful_mono [of ?s2 sh pf cn "map (scenario_row k) [Suc k..<b]"] by blast
  have wf: "plain_write_raises write_fault" "feat_geometry (numbered_feature k) = None"
    by (simp_all add: write_fault_def numbered_feature_def)
  have "PyStr (str_nat k) \<in> failed_parcel_ids ?s2"
    using process_row_write_raises [OF wf, of sh pf cn ?s1]
    by (simp add: rk uid_numbered)
  then have f: "PyStr (str_nat k) \<in> failed_parcel_ids ?s3"
    using foldl_successful_mono [of ?s2 sh pf cn "map (scenario_row k) [Suc k..<b]"] by blast
  show ?thesis unfolding split using s f by simp
qed

lemma numbered_uids_distinct: "distinct (map feature_uid (map numbered_feature [a..<b]))"
proof -
  have "inj_on (\<lambda>i. PyStr (str_nat i)) (set [a..<b])"
    by (rule inj_onI) (simp add: str_nat_inj)
  then have "distinct (map (\<lambda>i. PyStr (str_nat i)) [a..<b])"
    by (simp add: distinct_map)
  then show ?thesis by (simp add: comp_def uid_numbered)
qed

lemma numbered_table:
  "map global_parcel_uid (foldl (upsert sh pf cn) [] (map numbered_feature [a..<b]))
     = map (\<lambda>i. PyStr (str_nat i)) [a..<b]"
  using foldl_upsert_fresh [of "[]" "map numbered_feature [a..<b]" sh pf cn]
    numbered_uids_distinct [of a b]
  by (auto simp: comp_def uid_numbered)

lemma failure_in_first_batch:
  assumes "a < k" "k < a + batch_size" "a + batch_size \<le> b"
  shows "map global_parcel_uid
           (committed (update_parcel_data sh pf cn (\<lambda>n. False) [] (map (scenario_row k) [a..<b])))
           = map (\<lambda>i. PyStr (str_nat i)) [Suc k..<b] \<and>
         PyStr (str_nat a)
           \<in> successful_parcel_ids
               (update_parcel_data sh pf cn (\<lambda>n. False) [] (map (scenario_row k) [a..<b])) \<and>
         PyStr (str_nat k)
           \<in> failed_parcel_ids
               (update_parcel_data sh pf cn (\<lambda>n. False) [] (map (scenario_row k) [a..<b]))"
proof -
  let ?pr = "process_row sh pf cn"
  let ?m = "a + batch_size"
  let ?rows = "map (scenario_row k) [a..<b]"
  let ?st0 = "initial_state []"
  let ?b1 = "map (scenario_row k) [a..<?m]"
  let ?b2 = "map (scenario_row k) [?m..<b]"
  let ?st1 = "foldl ?pr ?st0 ?b1"
  let ?st2 = "commit_batch False ?st1"
  let ?end = "update_batches sh pf cn (\<lambda>n. False) (0 + 1) ?st2 ?b2"
  have tk: "take batch_size ?rows = ?b1"
    using assms(3) by (simp add: take_map)
  have dr: "drop batch_size ?rows = ?b2"
    by (simp add: drop_map add.commute)
  have ne: "?rows \<noteq> []"
    using assms by simp
  have step: "update_batches sh pf cn (\<lambda>n. False) 0 ?st0 ?rows = ?end"
    using ne by (subst update_batches.simps) (simp only: tk dr if_False)
  have p0: "pending ?st0 = committed ?st0" "committed ?st0 = []"
    by (simp_all add: initial_state_def)
  have b1: "pending ?st1 = foldl (upsert sh pf cn) [] (map numbered_feature [Suc k..<?m])"
    using batch_with_failure [of a k ?m ?st0 sh pf cn] p0 assms(1,2) by simp
  have st2: "committed ?st2 = foldl (upsert sh pf cn) [] (map numbered_feature [Suc k..<?m])"
    "pending ?st2 = committed ?st2"
    by (simp_all add: commit_batch_def commit_def b1)
  have cl: "clean_rows ?b2"
    by (rule clean_segment) (use assms(2) in simp)
  have join: "[Suc k..<b] = [Suc k..<?m] @ [?m..<b]"
    using upt_add_eq_append [of "Suc k" ?m "b - ?m"] assms(2,3) by simp
  have "committed ?end = foldl (upsert sh pf cn) (committed ?st2) (map fst ?b2)"
    using update_batches_no_faults [OF cl _ st2(2), where commit_raises = "\<lambda>n. False"
        and sh = sh and pf = pf and cn = cn and b = "0 + 1"]
    by simp
  then have "committed ?end = foldl (upsert sh pf cn) [] (map numbered_feature [Suc k..<b])"
    unfolding st2(1) fst_segment join by simp
  then have tbl: "map global_parcel_uid (committed ?end)
      = map (\<lambda>i. PyStr (str_nat i)) [Suc k..<b]"
    by (simp only: numbered_table)
  have sets1: "PyStr (str_nat a) \<in> successful_parcel_ids ?st2"
    "PyStr (str_nat k) \<in> failed_parcel_ids ?st2"
    using batch_with_failure_sets [of a k ?m sh pf cn ?st0] assms(1,2)
    by (simp_all add: commit_batch_sets)
  have sets: "PyStr (str_nat a) \<in> successful_parcel_ids ?end"
    "PyStr (str_nat k) \<in> failed_parcel_ids ?end"
    using sets1 update_batches_mono [of ?st2 sh pf cn "\<lambda>n. False" "0 + 1" ?b2] by blast+
  show ?thesis
    unfolding update_parcel_data_def step
    using tbl sets by (simp add: rollback_def)
qed

text \<open>
  C1. The claim fails on the code. In the scenario of 1500 records of which only record
  750 raises, on an empty table, the handler of record 750 calls \<open>conn.rollback()\<close>,
  which discards the whole open transaction: the persisted table ends with the rows of
  records 751 to 1500 only. Record 1 is among the identifiers counted as successful
  although its row was discarded; record 750 is marked failed.
\<close>

theorem record_failure_discards_earlier_records:
  "map global_parcel_uid
     (committed (update_parcel_data sh pf cn (\<lambda>n. False) [] scenario_1500))
     = map (\<lambda>i. PyStr (str_nat i)) [751..<1501] \<and>
   PyStr (str_nat 1)
     \<in> successful_parcel_ids (update_parcel_data sh pf cn (\<lambda>n. False) [] scenario_1500) \<and>
   PyStr (str_nat 750)
     \<in> failed_parcel_ids (update_parcel_data sh pf cn (\<lambda>n. False) [] scenario_1500)"
proof -
  have h: "(1::nat) < 750" "750 < 1 + batch_size" "1 + batch_size \<le> 1501"
    by (simp_all add: batch_size_def)
  have s: "Suc 750 = 751" by simp
  show ?thesis
    using failure_in_first_batch [OF h, of sh pf cn]
    unfolding scenario_1500_def s .
qed

end
